theory Spec2Isabelle
  imports Main "HOL-Library.Sublist" "HOL-Library.AList"
begin

section \<open>The ANMN NRS real-time harvester (anmn\_nrs\_aims.py)\<close>

text \<open>
  The script downloads, per quality-control level and per channel, the date ranges not yet
  retrieved from the AIMS web service, rewrites each netCDF file, checks it, and moves it to
  the incoming directory, recording per channel how far it got.  The model below follows
  \<^verbatim>\<open>src/ANMN/NRS_AIMS/REALTIME/anmn_nrs_aims.py\<close> function by function.

  The functions the script imports from \<^verbatim>\<open>aims_realtime_util\<close>, \<^verbatim>\<open>dest_path\<close> and
  \<^verbatim>\<open>util\<close> are not among the sources.  They are parameters of the model (the record
  \<open>collab\<close>): each one returns either a value or the exception it raises.  The two that
  contact the feed, \<^verbatim>\<open>parse_aims_xml\<close> and \<^verbatim>\<open>download_channel\<close>, also receive the list of
  the calls made so far, since the feed may answer the same request differently each time it
  is asked.  The one
  exception is \<^verbatim>\<open>save_channel_info\<close>, which is modelled from the spec (see \<open>advance\<close>).

  What the script does to the world is kept in a record: the watermarks, the incoming
  directory, the errors directory, the files copied to the working directory, the temporary
  directories removed, and the log.  A further field, \<open>trace\<close>, lists in order the calls made
  to the feed and to the stages of the pipeline; the statements about the order of the stages
  and about contact with the feed are statements about this list.

  Writing to the log, copying a file and removing a temporary directory always succeed in the
  model; the move into the incoming directory may raise.  \<^verbatim>\<open>close_logger\<close> and
  \<^verbatim>\<open>os.chmod\<close> change nothing that the model keeps.
\<close>

subsection \<open>Data\<close>

type_synonym channel = string

text \<open>
  A point in time, in seconds since the epoch.  The script renders every date with
  \<^verbatim>\<open>strftime("%Y-%m-%dT%H:%M:%SZ")\<close> before handing it on; the rendering is injective and
  keeps the order, and the model passes the time itself.
\<close>
type_synonym date = nat

datatype exn = SystemExit int | Error string

datatype level = INFO | WARNING | ERROR

datatype attr = AStr string | AInt int | AFloat int
  \<comment> \<open>\<open>AFloat n\<close> is the float \<open>n.0\<close>; the script only writes \<open>-10.0\<close> and \<open>30.0\<close>\<close>

record ncfile =
  nc_path :: string
  nc_classic :: bool              \<comment> \<open>the file is in a classic (netCDF-3) format\<close>
  nc_gatts :: "(string \<times> attr) list"
  nc_vars :: "(string \<times> (string \<times> attr) list) list"
  nc_data :: nat

text \<open>The fields of the tuple \<^verbatim>\<open>channel_id_info\<close> that the script reads, by index.\<close>
record channel_info =
  ci_channel_id :: string       \<comment> \<open>index 0\<close>
  ci_from_date :: date          \<comment> \<open>index 1\<close>
  ci_thru_date :: date          \<comment> \<open>index 2\<close>
  ci_metadata_uuid :: string    \<comment> \<open>index 3\<close>
  ci_site_name :: string        \<comment> \<open>index 6\<close>

record aims_xml_info =
  xml_channels :: "channel list"    \<comment> \<open>\<^verbatim>\<open>aims_xml_info[0]\<close>\<close>
  xml_rows :: "(channel \<times> channel_info) list"

datatype event =
    Ev_parse_aims_xml string
  | Ev_download_channel channel date date nat
  | Ev_is_no_data_found
  | Ev_is_time_var_empty
  | Ev_modify_anmn_nrs_netcdf
  | Ev_has_var_only_fill_value
  | Ev_get_anmn_nrs_site_name
  | Ev_is_time_monotonic
  | Ev_pass_netcdf_checker
  | Ev_fix_data_code_from_filename
  | Ev_fix_provider_code_from_filename
  | Ev_re_search
  | Ev_move_to_incoming

type_synonym progress = "channel \<times> nat \<Rightarrow> date option"

record state =
  store :: progress                          \<comment> \<open>the persisted watermarks\<close>
  incoming :: "string list"                  \<comment> \<open>file names in \<^verbatim>\<open>ANMN_NRS_INCOMING_DIR\<close>\<close>
  errors_dir :: "ncfile list"                \<comment> \<open>\<^verbatim>\<open>os.path.join(wip_path, 'errors')\<close>\<close>
  wip_dir :: "(string \<times> ncfile) list"        \<comment> \<open>files copied into \<^verbatim>\<open>data_wip_path\<close>\<close>
  reclaimed :: "string list"                 \<comment> \<open>temporary directories removed by \<^verbatim>\<open>rmtree\<close>\<close>
  log :: "(level \<times> string) list"
  trace :: "event list"                      \<comment> \<open>calls made to the feed and to the pipeline stages\<close>

record collab =
  SingleInstance :: "exn + unit"
  set_up :: "exn + unit"
  strftime :: "date \<Rightarrow> string"
  parse_aims_xml :: "event list \<Rightarrow> string \<Rightarrow> exn + aims_xml_info"
  get_channel_info :: "channel \<Rightarrow> aims_xml_info \<Rightarrow> exn + channel_info"
  create_list_of_dates_to_download ::
    "channel \<Rightarrow> nat \<Rightarrow> date \<Rightarrow> date \<Rightarrow> progress \<Rightarrow> exn + (date list \<times> date list)"
  download_channel ::
    "event list \<Rightarrow> channel \<Rightarrow> date \<Rightarrow> date \<Rightarrow> nat \<Rightarrow> exn + ncfile option"
  is_no_data_found :: "ncfile \<Rightarrow> exn + bool"
  is_time_var_empty :: "ncfile \<Rightarrow> exn + bool"
  modify_aims_netcdf :: "ncfile \<Rightarrow> channel_info \<Rightarrow> exn + ncfile"
  get_main_anmn_nrs_var :: "ncfile \<Rightarrow> exn + string"
  convert_time_cf_to_imos :: "ncfile \<Rightarrow> exn + (bool \<times> ncfile)"
  remove_dimension_from_netcdf :: "ncfile \<Rightarrow> exn + ncfile"
  has_var_only_fill_value :: "ncfile \<Rightarrow> string \<Rightarrow> exn + bool"
  get_anmn_nrs_site_name :: "ncfile \<Rightarrow> exn + string list"
  is_time_monotonic :: "ncfile \<Rightarrow> exn + bool"
  pass_netcdf_checker :: "ncfile \<Rightarrow> string list \<Rightarrow> exn + bool"
  fix_data_code_from_filename :: "ncfile \<Rightarrow> exn + ncfile"
  fix_provider_code_from_filename :: "ncfile \<Rightarrow> string \<Rightarrow> exn + ncfile"
  remove_end_date_from_filename :: "string \<Rightarrow> exn + string"
  md5 :: "ncfile \<Rightarrow> exn + string"
  shutil_move :: "string \<Rightarrow> string \<Rightarrow> exn + unit"
  WIP_DIR :: string

subsection \<open>Computations with state and exceptions\<close>

type_synonym 'a m = "state \<Rightarrow> (exn + 'a) \<times> state"

definition ret :: "'a \<Rightarrow> 'a m" where
  "ret x = (\<lambda>s. (Inr x, s))"

definition throw :: "exn \<Rightarrow> 'a m" where
  "throw e = (\<lambda>s. (Inl e, s))"

definition lift :: "exn + 'a \<Rightarrow> 'a m" where
  "lift r = (\<lambda>s. (r, s))"

definition bnd :: "'a m \<Rightarrow> ('a \<Rightarrow> 'b m) \<Rightarrow> 'b m" where
  "bnd c f = (\<lambda>s. case c s of (Inl e, s') \<Rightarrow> (Inl e, s') | (Inr x, s') \<Rightarrow> f x s')"

definition seq :: "'a m \<Rightarrow> 'b m \<Rightarrow> 'b m" where
  "seq c d = bnd c (\<lambda>_. d)"

text \<open>A bare \<^verbatim>\<open>except:\<close> of Python 2: it catches every exception, \<^verbatim>\<open>SystemExit\<close> included.\<close>
definition try_except :: "'a m \<Rightarrow> (exn \<Rightarrow> 'a m) \<Rightarrow> 'a m" where
  "try_except c h = (\<lambda>s. case c s of (Inl e, s') \<Rightarrow> h e s' | (Inr x, s') \<Rightarrow> (Inr x, s'))"

definition sbind :: "exn + 'a \<Rightarrow> ('a \<Rightarrow> exn + 'b) \<Rightarrow> exn + 'b" where
  "sbind r f = (case r of Inl e \<Rightarrow> Inl e | Inr x \<Rightarrow> f x)"

definition emit :: "event \<Rightarrow> unit m" where
  "emit ev = (\<lambda>s. (Inr (), s\<lparr>trace := trace s @ [ev]\<rparr>))"

definition logger :: "level \<Rightarrow> string \<Rightarrow> unit m" where
  "logger lv msg = (\<lambda>s. (Inr (), s\<lparr>log := log s @ [(lv, msg)]\<rparr>))"

definition rmtree :: "string \<Rightarrow> unit m" where
  "rmtree d = (\<lambda>s. (Inr (), s\<lparr>reclaimed := reclaimed s @ [d]\<rparr>))"

definition copy_to_errors :: "ncfile \<Rightarrow> unit m" where
  "copy_to_errors f = (\<lambda>s. (Inr (), s\<lparr>errors_dir := errors_dir s @ [f]\<rparr>))"

definition copy_to_wip :: "string \<Rightarrow> ncfile \<Rightarrow> unit m" where
  "copy_to_wip name f = (\<lambda>s. (Inr (), s\<lparr>wip_dir := wip_dir s @ [(name, f)]\<rparr>))"

text \<open>The two calls to the feed: the call is recorded, and the answer is the feed's answer
  after the calls recorded before it.\<close>
definition fetch_aims_xml :: "collab \<Rightarrow> string \<Rightarrow> aims_xml_info m" where
  "fetch_aims_xml C url =
     (\<lambda>s. (parse_aims_xml C (trace s) url, s\<lparr>trace := trace s @ [Ev_parse_aims_xml url]\<rparr>))"

definition fetch_channel :: "collab \<Rightarrow> channel \<Rightarrow> date \<Rightarrow> date \<Rightarrow> nat \<Rightarrow> ncfile option m" where
  "fetch_channel C channel_id start_date end_date level_qc =
     (\<lambda>s. (download_channel C (trace s) channel_id start_date end_date level_qc,
           s\<lparr>trace := trace s @ [Ev_download_channel channel_id start_date end_date level_qc]\<rparr>))"

subsection \<open>Strings and paths\<close>

fun str_nat :: "nat \<Rightarrow> string" where
  "str_nat n = (if n < 10 then [''0123456789'' ! n]
                else str_nat (n div 10) @ [''0123456789'' ! (n mod 10)])"
  \<comment> \<open>\<^verbatim>\<open>str(level_qc)\<close>\<close>

declare str_nat.simps [simp del]

text \<open>\<^verbatim>\<open>sub in s\<close> on strings.\<close>
fun str_in :: "string \<Rightarrow> string \<Rightarrow> bool" where
  "str_in sub [] = (sub = [])"
| "str_in sub (c # cs) = (prefix sub (c # cs) \<or> str_in sub cs)"

definition is_upper :: "char \<Rightarrow> bool" where
  "is_upper c = (65 \<le> (of_char c :: nat) \<and> (of_char c :: nat) \<le> 90)"

text \<open>\<^verbatim>\<open>re.search('IMOS_ANMN_[A-Z]{1}_', s) is not None\<close>.\<close>
definition regex_at :: "string \<Rightarrow> bool" where
  "regex_at s = (prefix ''IMOS_ANMN_'' s \<and>
     (case drop 10 s of c # d # _ \<Rightarrow> is_upper c \<and> d = CHR ''_'' | _ \<Rightarrow> False))"

fun re_search :: "string \<Rightarrow> bool" where
  "re_search [] = False"
| "re_search (c # cs) = (regex_at (c # cs) \<or> re_search cs)"

definition rstrip_sep :: "string \<Rightarrow> string" where
  "rstrip_sep p = rev (dropWhile (\<lambda>c. c = CHR ''/'') (rev p))"

definition dirname :: "string \<Rightarrow> string" where
  "dirname p =
     (let head = rev (dropWhile (\<lambda>c. c \<noteq> CHR ''/'') (rev p))
      in if head \<noteq> [] \<and> \<not> list_all (\<lambda>c. c = CHR ''/'') head then rstrip_sep head else head)"

definition basename :: "string \<Rightarrow> string" where
  "basename p = rev (takeWhile (\<lambda>c. c \<noteq> CHR ''/'') (rev p))"

text \<open>\<^verbatim>\<open>os.path.join(a, b)\<close>.\<close>
definition path_join :: "string \<Rightarrow> string \<Rightarrow> string" where
  "path_join a b =
     (if prefix ''/'' b then b
      else if a = [] \<or> last a = CHR ''/'' then a @ b
      else a @ ''/'' @ b)"

text \<open>\<^verbatim>\<open>os.path.splitext(b)[0]\<close> for a name \<open>b\<close> without a separator: the part before the last
  dot, unless only dots come before it.\<close>
definition splitext_root :: "string \<Rightarrow> string" where
  "splitext_root b =
     (let ext = takeWhile (\<lambda>c. c \<noteq> CHR ''.'') (rev b);
          root = rev (drop (length ext + 1) (rev b))
      in if length ext < length b \<and> \<not> list_all (\<lambda>c. c = CHR ''.'') root then root else b)"

text \<open>Python's \<^verbatim>\<open>int(s)\<close> on a string: surrounding blanks, an optional sign, decimal digits.\<close>
definition is_space :: "char \<Rightarrow> bool" where
  "is_space c = (c \<in> set [CHR '' '', CHR 0x09, CHR 0x0A, CHR 0x0B, CHR 0x0C, CHR 0x0D])"

definition is_digit :: "char \<Rightarrow> bool" where
  "is_digit c = (48 \<le> (of_char c :: nat) \<and> (of_char c :: nat) \<le> 57)"

definition digits_val :: "string \<Rightarrow> int" where
  "digits_val ds = foldl (\<lambda>a c. 10 * a + (int (of_char c) - 48)) 0 ds"

definition py_int :: "string \<Rightarrow> exn + int" where
  "py_int s =
     (let t = rev (dropWhile is_space (rev (dropWhile is_space s)));
          (neg, ds) = (case t of c # r \<Rightarrow>
                         if c = CHR ''-'' then (True, r) else if c = CHR ''+'' then (False, r) else (False, t)
                       | [] \<Rightarrow> (False, t))
      in if ds \<noteq> [] \<and> list_all is_digit ds
         then Inr (if neg then - digits_val ds else digits_val ds)
         else Inl (Error ''ValueError''))"

subsection \<open>The netCDF operations the script uses\<close>

definition set_gatt :: "string \<Rightarrow> attr \<Rightarrow> ncfile \<Rightarrow> ncfile" where
  "set_gatt k v f = f\<lparr>nc_gatts := AList.update k v (nc_gatts f)\<rparr>"

text \<open>An integer attribute: a value that does not fit in 64 bits is refused, and a file in a
  classic format keeps the value narrowed to 32 bits.\<close>
definition wrap32 :: "int \<Rightarrow> int" where
  "wrap32 v = (v + 2 ^ 31) mod 2 ^ 32 - 2 ^ 31"

definition set_int_gatt :: "string \<Rightarrow> int \<Rightarrow> ncfile \<Rightarrow> exn + ncfile" where
  "set_int_gatt k v f =
     (if v < - (2 ^ 63) \<or> 2 ^ 64 \<le> v then Inl (Error ''TypeError'')
      else Inr (set_gatt k (AInt (if nc_classic f then wrap32 v else v)) f))"

definition has_var :: "string \<Rightarrow> ncfile \<Rightarrow> bool" where
  "has_var v f = (map_of (nc_vars f) v \<noteq> None)"

definition set_vatt :: "string \<Rightarrow> string \<Rightarrow> attr \<Rightarrow> ncfile \<Rightarrow> ncfile" where
  "set_vatt v k a f =
     f\<lparr>nc_vars := map (\<lambda>(n, atts). if n = v then (n, AList.update k a atts) else (n, atts))
                      (nc_vars f)\<rparr>"

text \<open>\<^verbatim>\<open>renameVariable\<close> fails when the new name is already in use.\<close>
definition renameVariable :: "string \<Rightarrow> string \<Rightarrow> ncfile \<Rightarrow> exn + ncfile" where
  "renameVariable old new f =
     (if has_var new f then Inl (Error ''RuntimeError'')
      else Inr (f\<lparr>nc_vars := map (\<lambda>(n, atts). if n = old then (new, atts) else (n, atts))
                               (nc_vars f)\<rparr>))"

subsection \<open>The Transformer: \<^verbatim>\<open>modify_anmn_nrs_netcdf\<close>\<close>

text \<open>The \<^verbatim>\<open>if\<close>/\<^verbatim>\<open>elif\<close> chain on \<^verbatim>\<open>channel_id_info[6]\<close>: site code and platform code.\<close>
definition site_of :: "string \<Rightarrow> (string \<times> string) option" where
  "site_of name =
     (if str_in ''Yongala'' name then Some (''NRSYON'', ''Yongala NRS Buoy'')
      else if str_in ''Darwin'' name then Some (''NRSDAR'', ''Darwin NRS Buoy'')
      else if str_in ''Beagle'' name then Some (''DARBGF'', ''Beagle Gulf Mooring'')
      else None)"

definition fix_depth :: "ncfile \<Rightarrow> exn + ncfile" where
  "fix_depth f =
     (if has_var ''depth'' f
      then renameVariable ''depth'' ''NOMINAL_DEPTH''
             (set_vatt ''depth'' ''units'' (AStr ''m'')
             (set_vatt ''depth'' ''valid_max'' (AFloat 30)
             (set_vatt ''depth'' ''valid_min'' (AFloat (- 10))
             (set_vatt ''depth'' ''reference_datum'' (AStr ''sea surface'')
             (set_vatt ''depth'' ''axis'' (AStr ''Z'')
             (set_vatt ''depth'' ''positive'' (AStr ''down'')
             (set_vatt ''depth'' ''long_name'' (AStr ''nominal depth'') f)))))))
      else Inr f)"

definition fix_DEPTH :: "ncfile \<Rightarrow> ncfile" where
  "fix_DEPTH f =
     (if has_var ''DEPTH'' f
      then set_vatt ''DEPTH'' ''units'' (AStr ''m'')
          (set_vatt ''DEPTH'' ''valid_max'' (AFloat 30)
          (set_vatt ''DEPTH'' ''valid_min'' (AFloat (- 10))
          (set_vatt ''DEPTH'' ''positive'' (AStr ''down'')
          (set_vatt ''DEPTH'' ''reference_datum'' (AStr ''sea surface'')
          (set_vatt ''DEPTH'' ''long_name'' (AStr ''actual depth'')
          (set_vatt ''DEPTH'' ''coordinates'' (AStr ''TIME LATITUDE LONGITUDE NOMINAL_DEPTH'') f))))))
      else f)"

text \<open>\<^verbatim>\<open>netcdf_file_obj.variables[main_var].coordinates = ...\<close>: a \<^verbatim>\<open>KeyError\<close> when the main
  variable is not in the file.\<close>
definition set_main_coordinates :: "string \<Rightarrow> ncfile \<Rightarrow> exn + ncfile" where
  "set_main_coordinates main_var f =
     (if \<not> has_var main_var f then Inl (Error ''KeyError'')
      else if has_var ''NOMINAL_DEPTH'' f
      then Inr (set_vatt main_var ''coordinates'' (AStr ''TIME LATITUDE LONGITUDE NOMINAL_DEPTH'') f)
      else Inr (set_vatt main_var ''coordinates'' (AStr ''TIME LATITUDE LONGITUDE'') f))"

text \<open>The function rewrites the file in place: whatever the helpers do to the contents, the
  file stays at \<^verbatim>\<open>netcdf_file_path\<close>.\<close>
definition at_path :: "string \<Rightarrow> ncfile \<Rightarrow> ncfile" where
  "at_path p f = f\<lparr>nc_path := p\<rparr>"

text \<open>The result is the returned boolean and the file as the function leaves it.\<close>
definition modify_anmn_nrs_netcdf :: "collab \<Rightarrow> ncfile \<Rightarrow> channel_info \<Rightarrow> exn + (bool \<times> ncfile)" where
  "modify_anmn_nrs_netcdf C netcdf_file channel_id_info =
     sbind (modify_aims_netcdf C netcdf_file channel_id_info) (\<lambda>f1.
     sbind (py_int (ci_channel_id channel_id_info)) (\<lambda>cid.
     sbind (set_int_gatt ''aims_channel_id'' cid f1) (\<lambda>f2.
     case site_of (ci_site_name channel_id_info) of
       None \<Rightarrow> Inr (False, at_path (nc_path netcdf_file) f2)
     | Some (site_code, platform_code) \<Rightarrow>
         let f3 = set_gatt ''platform_code'' (AStr platform_code)
                    (set_gatt ''site_code'' (AStr site_code) f2);
             f4 = (if \<not> (ci_metadata_uuid channel_id_info = ''Not Available'')
                   then set_gatt ''metadata_uuid'' (AStr (ci_metadata_uuid channel_id_info)) f3
                   else f3)
         in sbind (fix_depth f4) (\<lambda>f5.
            let f6 = fix_DEPTH f5 in
            sbind (get_main_anmn_nrs_var C f6) (\<lambda>main_var.
            sbind (set_main_coordinates main_var f6) (\<lambda>f7.
            sbind (convert_time_cf_to_imos C f7) (\<lambda>(converted, f8).
            if \<not> converted then Inr (False, at_path (nc_path netcdf_file) f8)
            else sbind (remove_dimension_from_netcdf C f8) (\<lambda>f9.
                 Inr (True, at_path (nc_path netcdf_file) f9)))))))))"

subsection \<open>The Publisher: \<^verbatim>\<open>move_to_incoming\<close>\<close>

text \<open>The new name is the stem of the name without its end date, the digest, and \<^verbatim>\<open>.nc\<close>.
  The move may fail (\<open>shutil_move\<close>); the change of permissions before it is left out.
  A file of the same name already in the directory is overwritten.\<close>
definition put_name :: "string \<Rightarrow> string list \<Rightarrow> string list" where
  "put_name name names = (if name \<in> set names then names else names @ [name])"

definition move_to_incoming :: "collab \<Rightarrow> ncfile \<Rightarrow> unit m" where
  "move_to_incoming C netcdf_file =
     bnd (lift (remove_end_date_from_filename C (nc_path netcdf_file))) (\<lambda>no_end_date.
     bnd (lift (md5 C netcdf_file)) (\<lambda>digest.
     let new_filename = splitext_root (basename no_end_date) @ ''.'' @ digest @ ''.nc'' in
     bnd (lift (shutil_move C (nc_path netcdf_file) new_filename)) (\<lambda>_.
     seq (\<lambda>s. (Inr (), s\<lparr>incoming := put_name new_filename (incoming s)\<rparr>))
         (rmtree (dirname (nc_path netcdf_file))))))"

subsection \<open>The progress store\<close>

text \<open>
  Modelled from the spec: \<^verbatim>\<open>save_channel_info\<close> of \<^verbatim>\<open>aims_realtime_util\<close>, which is not among
  the sources.  The spec's ProgressStore has the operation \<open>advance\<close>, which records the
  new timestamp for the pair of channel and qc-level and is a no-op when the timestamp is
  earlier than the stored one.
\<close>
definition advance :: "channel \<Rightarrow> nat \<Rightarrow> date \<Rightarrow> progress \<Rightarrow> progress" where
  "advance channel_id level_qc new_covered_through st =
     (case st (channel_id, level_qc) of
        None \<Rightarrow> st((channel_id, level_qc) \<mapsto> new_covered_through)
      | Some covered_through \<Rightarrow>
          if new_covered_through < covered_through then st
          else st((channel_id, level_qc) \<mapsto> new_covered_through))"

definition save_channel_info :: "channel \<Rightarrow> aims_xml_info \<Rightarrow> nat \<Rightarrow> date \<Rightarrow> unit m" where
  "save_channel_info channel_id aims_xml_info level_qc end_date =
     (\<lambda>s. (Inr (), s\<lparr>store := advance channel_id level_qc end_date (store s)\<rparr>))"

subsection \<open>One chunk of \<^verbatim>\<open>process_monthly_channel\<close>\<close>

definition data_wip_path :: "collab \<Rightarrow> string" where
  "data_wip_path C =
     path_join (path_join (WIP_DIR C) ''ANMN'')
       ''NRS_AIMS_Darwin_Yongala_data_rss_download_temporary''"

definition contact_aims_msg :: string where
  "contact_aims_msg = ''Process of channel aborted - CONTACT AIMS''"

text \<open>
  How the body of the \<^verbatim>\<open>for\<close> loop ends for one pair of dates: one constructor for each
  \<^verbatim>\<open>break\<close> of the source, in the source's order, and two for the paths that reach
  \<^verbatim>\<open>save_channel_info\<close> at the bottom of the body.
\<close>
datatype chunk_exit =
    Not_valid_zip          \<comment> \<open>\<^verbatim>\<open>download_channel\<close> returned \<^verbatim>\<open>None\<close>\<close>
  | No_data_found          \<comment> \<open>no \<^verbatim>\<open>break\<close>: the body goes on to \<^verbatim>\<open>save_channel_info\<close>\<close>
  | Time_var_empty
  | Modify_failed
  | Only_fill_value
  | Unknown_site
  | Time_not_monotonic
  | Checker_failed
  | Regex_failed
  | Moved_to_incoming      \<comment> \<open>no \<^verbatim>\<open>break\<close>: the body goes on to \<^verbatim>\<open>save_channel_info\<close>\<close>

definition breaks :: "chunk_exit \<Rightarrow> bool" where
  "breaks x = (x \<noteq> No_data_found \<and> x \<noteq> Moved_to_incoming)"

definition copied_msg :: "collab \<Rightarrow> ncfile \<Rightarrow> string" where
  "copied_msg C f =
     ''   File copied to ''
       @ path_join (path_join (data_wip_path C) ''errors'') (basename (nc_path f))
       @ '' for debugging''"

text \<open>Lines 200 to 210: the file has passed the checker; its name is fixed and tested, and
  the file is moved to the incoming directory.\<close>
definition name_and_publish :: "collab \<Rightarrow> channel \<Rightarrow> ncfile \<Rightarrow> chunk_exit m" where
  "name_and_publish C channel_id f1 =
     seq (emit Ev_fix_data_code_from_filename)
    (bnd (lift (fix_data_code_from_filename C f1)) (\<lambda>f2.
     seq (emit Ev_fix_provider_code_from_filename)
    (bnd (lift (fix_provider_code_from_filename C f2 ''IMOS_ANMN'')) (\<lambda>f3.
     seq (emit Ev_re_search)
    (if \<not> re_search (nc_path f3) then
       seq (logger ERROR (''   Channel '' @ channel_id
              @ '' - File name Data code does not pass REGEX - Process of channel aborted''))
      (seq (copy_to_errors f3)
      (seq (logger ERROR (copied_msg C f3))
      (seq (rmtree (dirname (nc_path f3))) (ret Regex_failed))))
     else
     seq (emit Ev_move_to_incoming)
    (seq (move_to_incoming C f3) (ret Moved_to_incoming)))))))"

text \<open>Lines 174 to 198, and then lines 200 to 210: the tests made on the modified file.\<close>
definition check_file :: "collab \<Rightarrow> channel \<Rightarrow> ncfile \<Rightarrow> chunk_exit m" where
  "check_file C channel_id f1 =
     bnd (lift (get_main_anmn_nrs_var C f1)) (\<lambda>main_var.
     seq (emit Ev_has_var_only_fill_value)
    (bnd (lift (has_var_only_fill_value C f1 main_var)) (\<lambda>only_fill.
     if only_fill then
       seq (logger ERROR (''   Channel '' @ channel_id @ '' - _Fillvalues only in main variable - ''
                          @ contact_aims_msg))
      (seq (rmtree (dirname (nc_path f1))) (ret Only_fill_value))
     else
     seq (emit Ev_get_anmn_nrs_site_name)
    (bnd (lift (get_anmn_nrs_site_name C f1)) (\<lambda>site_name.
     if site_name = [] then
       seq (logger ERROR (''   Channel '' @ channel_id @ '' - Unknown site_code gatt value - ''
                          @ contact_aims_msg))
      (seq (rmtree (dirname (nc_path f1))) (ret Unknown_site))
     else
     seq (emit Ev_is_time_monotonic)
    (bnd (lift (is_time_monotonic C f1)) (\<lambda>monotonic.
     if \<not> monotonic then
       seq (logger ERROR (''   Channel '' @ channel_id @ '' - TIME value is not strickly monotonic - ''
                          @ contact_aims_msg))
      (seq (rmtree (dirname (nc_path f1))) (ret Time_not_monotonic))
     else
     seq (emit Ev_pass_netcdf_checker)
    (bnd (lift (pass_netcdf_checker C f1 [''cf:latest'', ''imos:1.3''])) (\<lambda>checker_retval.
     if \<not> checker_retval then
       seq (logger ERROR (''   Channel '' @ channel_id
              @ '' - File does not pass CF/IMOS compliance checker - Process of channel aborted''))
      (seq (copy_to_errors f1)
      (seq (logger ERROR (copied_msg C f1))
      (seq (rmtree (dirname (nc_path f1))) (ret Checker_failed))))
     else name_and_publish C channel_id f1)))))))))"

text \<open>The \<^verbatim>\<open>else\<close> branch of the no-data test (lines 164 to 210).\<close>
definition process_file :: "collab \<Rightarrow> channel \<Rightarrow> channel_info \<Rightarrow> ncfile \<Rightarrow> chunk_exit m" where
  "process_file C channel_id channel_id_info f0 =
     seq (emit Ev_is_time_var_empty)
    (bnd (lift (is_time_var_empty C f0)) (\<lambda>empty.
     if empty then
       seq (logger ERROR (''   Channel '' @ channel_id @ '' - No values in TIME variable - ''
                          @ contact_aims_msg))
      (seq (rmtree (dirname (nc_path f0))) (ret Time_var_empty))
     else
     seq (emit Ev_modify_anmn_nrs_netcdf)
    (bnd (lift (modify_anmn_nrs_netcdf C f0 channel_id_info)) (\<lambda>(modified, f1).
     if \<not> modified then
       seq (logger ERROR (''   Channel '' @ channel_id
                          @ '' - Could not modify the NetCDF file - Process of channel aborted''))
      (seq (rmtree (dirname (nc_path f1))) (ret Modify_failed))
     else check_file C channel_id f1))))"

text \<open>The body of the \<^verbatim>\<open>for\<close> loop down to line 210, for one pair of dates: everything
  before \<^verbatim>\<open>save_channel_info\<close>.\<close>
definition fetch_and_process ::
  "collab \<Rightarrow> channel \<Rightarrow> channel_info \<Rightarrow> nat \<Rightarrow> date \<Rightarrow> date \<Rightarrow> chunk_exit m" where
  "fetch_and_process C channel_id channel_id_info level_qc start_date end_date =
     bnd (fetch_channel C channel_id start_date end_date level_qc) (\<lambda>netcdf_tmp_file.
     case netcdf_tmp_file of
       None \<Rightarrow>
         seq (logger ERROR (''   Channel '' @ channel_id @ '' - not valid zip file - ''
                            @ contact_aims_msg))
             (ret Not_valid_zip)
     | Some f0 \<Rightarrow>
         seq (emit Ev_is_no_data_found)
        (bnd (lift (is_no_data_found C f0)) (\<lambda>no_data.
         if no_data then
           seq (logger WARNING (''   Channel '' @ channel_id @ '' - No data for the time period:''
                                @ strftime C start_date @ '' - '' @ strftime C end_date))
          (seq (rmtree (dirname (nc_path f0))) (ret No_data_found))
         else process_file C channel_id channel_id_info f0)))"

text \<open>The whole body (lines 150 to 216): a \<^verbatim>\<open>break\<close> leaves the loop before line 216, the
  other two paths reach \<^verbatim>\<open>save_channel_info\<close> there.\<close>
definition process_chunk ::
  "collab \<Rightarrow> channel \<Rightarrow> channel_info \<Rightarrow> aims_xml_info \<Rightarrow> nat \<Rightarrow> date \<times> date \<Rightarrow> chunk_exit m" where
  "process_chunk C channel_id channel_id_info aims_xml_info level_qc dates =
     (case dates of (start_date, end_date) \<Rightarrow>
     bnd (fetch_and_process C channel_id channel_id_info level_qc start_date end_date) (\<lambda>x.
     if breaks x then ret x
     else seq (save_channel_info channel_id aims_xml_info level_qc end_date) (ret x)))"

fun chunk_loop ::
  "collab \<Rightarrow> channel \<Rightarrow> channel_info \<Rightarrow> aims_xml_info \<Rightarrow> nat \<Rightarrow> (date \<times> date) list \<Rightarrow> unit m" where
  "chunk_loop C channel_id channel_id_info aims_xml_info level_qc [] = ret ()"
| "chunk_loop C channel_id channel_id_info aims_xml_info level_qc (dates # rest) =
     bnd (process_chunk C channel_id channel_id_info aims_xml_info level_qc dates) (\<lambda>x.
     if breaks x then ret ()
     else chunk_loop C channel_id channel_id_info aims_xml_info level_qc rest)"

subsection \<open>\<^verbatim>\<open>process_monthly_channel\<close> and \<^verbatim>\<open>process_qc_level\<close>\<close>

definition close_logger :: "unit m" where
  "close_logger = ret ()"

definition process_monthly_channel :: "collab \<Rightarrow> channel \<Rightarrow> aims_xml_info \<Rightarrow> nat \<Rightarrow> unit m" where
  "process_monthly_channel C channel_id aims_xml_info level_qc =
     seq (logger INFO (''>> QC'' @ str_nat level_qc @ '' - Processing channel '' @ channel_id))
    (bnd (lift (get_channel_info C channel_id aims_xml_info)) (\<lambda>channel_id_info.
     bnd (\<lambda>s. (create_list_of_dates_to_download C channel_id level_qc
                  (ci_from_date channel_id_info) (ci_thru_date channel_id_info) (store s), s))
         (\<lambda>(start_dates, end_dates).
     seq (if length start_dates \<noteq> 0
          then chunk_loop C channel_id channel_id_info aims_xml_info level_qc
                 (zip start_dates end_dates)
          else logger INFO (''QC'' @ str_nat level_qc @ '' - Channel '' @ channel_id
                            @ '' already up to date''))
         close_logger)))"

definition xml_url :: "nat \<Rightarrow> nat \<Rightarrow> string" where
  "xml_url level_qc rss_val =
     ''http://data.aims.gov.au/gbroosdata/services/rss/netcdf/level'' @ str_nat level_qc
       @ ''/'' @ str_nat rss_val"

definition unknown_reason_msg :: "channel \<Rightarrow> nat \<Rightarrow> string" where
  "unknown_reason_msg channel_id level_qc =
     ''   Channel '' @ channel_id @ '' QC'' @ str_nat level_qc
       @ '' - Failed, unknown reason - manual debug required''"

text \<open>The \<^verbatim>\<open>try\<close>/\<^verbatim>\<open>except\<close> around one channel, and the
  \<^verbatim>\<open>for channel_id in aims_xml_info[0]\<close> loop.\<close>
definition guarded_channel :: "collab \<Rightarrow> channel \<Rightarrow> aims_xml_info \<Rightarrow> nat \<Rightarrow> unit m" where
  "guarded_channel C channel_id aims_xml_info level_qc =
     try_except (process_monthly_channel C channel_id aims_xml_info level_qc)
       (\<lambda>e. logger ERROR (unknown_reason_msg channel_id level_qc))"

fun channel_loop :: "collab \<Rightarrow> aims_xml_info \<Rightarrow> nat \<Rightarrow> channel list \<Rightarrow> unit m" where
  "channel_loop C aims_xml_info level_qc [] = ret ()"
| "channel_loop C aims_xml_info level_qc (channel_id # rest) =
     seq (guarded_channel C channel_id aims_xml_info level_qc)
         (channel_loop C aims_xml_info level_qc rest)"

definition process_qc_level :: "collab \<Rightarrow> nat \<Rightarrow> unit m" where
  "process_qc_level C level_qc =
     seq (logger INFO (''Process ANMN NRS download from AIMS web service - QC level ''
                       @ str_nat level_qc))
    (bnd (try_except (fetch_aims_xml C (xml_url level_qc 300))
            (\<lambda>e. seq (logger ERROR ''RSS feed not available'') (throw (SystemExit 1))))
         (\<lambda>aims_xml_info. channel_loop C aims_xml_info level_qc (xml_channels aims_xml_info)))"

subsection \<open>The start-up self-test: \<^verbatim>\<open>AimsDataValidationTest\<close>\<close>

definition md5_expected_value :: string where
  "md5_expected_value = ''2c354af05e56f3999fcfa3dda7bc8035''"

definition test_from_date :: date where
  "test_from_date = 1451606400"   \<comment> \<open>\<^verbatim>\<open>2016-01-01T00:00:00Z\<close>\<close>

definition test_thru_date :: date where
  "test_thru_date = 1451692800"   \<comment> \<open>\<^verbatim>\<open>2016-01-02T00:00:00Z\<close>\<close>

text \<open>\<^verbatim>\<open>setUp\<close>.  The value \<^verbatim>\<open>modify_anmn_nrs_netcdf\<close> returns is not looked at.  There is no
  test for \<^verbatim>\<open>None\<close>: when the download gives \<^verbatim>\<open>None\<close>, the Transformer is still called, and
  raises since there is no file to open.\<close>
definition setUp :: "collab \<Rightarrow> ncfile m" where
  "setUp C =
     bnd (fetch_aims_xml C (xml_url 1 300)) (\<lambda>aims_xml_info.
     bnd (lift (get_channel_info C ''84329'' aims_xml_info)) (\<lambda>channel_id_info.
     bnd (fetch_channel C ''84329'' test_from_date test_thru_date 1) (\<lambda>netcdf_tmp_file.
     seq (emit Ev_modify_anmn_nrs_netcdf)
    (case netcdf_tmp_file of
       None \<Rightarrow> throw (Error ''TypeError'')
     | Some f0 \<Rightarrow>
         bnd (lift (modify_anmn_nrs_netcdf C f0 channel_id_info)) (\<lambda>(modified, f1).
         ret (set_gatt ''history'' (AStr ''data validation test only'')
               (set_gatt ''date_created'' (AStr ''1970-01-01T00:00:00Z'') f1)))))))"

text \<open>\<^verbatim>\<open>test_aims_validation\<close>: the digest, when \<^verbatim>\<open>md5\<close> returns one, and whether the
  assertion holds.\<close>
definition test_aims_validation :: "collab \<Rightarrow> ncfile \<Rightarrow> string option \<times> bool" where
  "test_aims_validation C f =
     (case md5 C f of
        Inl e \<Rightarrow> (None, False)
      | Inr md5_netcdf_value \<Rightarrow> (Some md5_netcdf_value, md5_netcdf_value = md5_expected_value))"

text \<open>\<^verbatim>\<open>tearDown\<close> reads \<^verbatim>\<open>self.md5_netcdf_value\<close>, which the test method sets.\<close>
definition tearDown :: "ncfile \<Rightarrow> string option \<Rightarrow> unit m" where
  "tearDown f md5_netcdf_value =
     (case md5_netcdf_value of
        None \<Rightarrow> throw (Error ''AttributeError'')
      | Some d \<Rightarrow> seq (copy_to_wip (''nc_unittest_'' @ d @ ''.nc'') f)
                      (rmtree (dirname (nc_path f))))"

text \<open>
  \<^verbatim>\<open>data_validation_test.main(exit=False)\<close> followed by \<^verbatim>\<open>res.result.wasSuccessful()\<close>:
  the test runner turns an exception of \<^verbatim>\<open>setUp\<close>, of the test method or of \<^verbatim>\<open>tearDown\<close>
  into a recorded error, runs \<^verbatim>\<open>tearDown\<close> only when \<^verbatim>\<open>setUp\<close> has returned, and reports
  success when nothing was recorded.
\<close>
definition data_validation_test :: "collab \<Rightarrow> bool m" where
  "data_validation_test C =
     try_except
       (bnd (setUp C) (\<lambda>f.
        case test_aims_validation C f of (md5_netcdf_value, passed) \<Rightarrow>
        bnd (try_except (seq (tearDown f md5_netcdf_value) (ret True)) (\<lambda>e. ret False))
            (\<lambda>torn_down. ret (passed \<and> torn_down))))
       (\<lambda>e. ret False)"

subsection \<open>The script body\<close>

definition qc_levels :: "collab \<Rightarrow> unit m" where
  "qc_levels C = seq (process_qc_level C 0) (process_qc_level C 1)"

text \<open>The part of the script after the self-test (lines 286 to 299).\<close>
definition after_test :: "collab \<Rightarrow> bool \<Rightarrow> unit m" where
  "after_test C was_successful =
     bnd (\<lambda>s. (Inr (length (incoming s)), s)) (\<lambda>pending.
     if pending \<ge> 200 then
       seq (logger WARNING ''Operation aborted, too many files in INCOMING_DIR'')
           (throw (SystemExit 0))
     else
       seq (if was_successful then qc_levels C
            else logger WARNING ''Data validation unittests failed'')
      (seq close_logger (throw (SystemExit 0))))"

definition main :: "collab \<Rightarrow> unit m" where
  "main C =
     bnd (lift (SingleInstance C)) (\<lambda>me.
     bnd (lift (set_up C)) (\<lambda>_.
     bnd (data_validation_test C) (\<lambda>was_successful.
     after_test C was_successful)))"

text \<open>The status the process ends with: the argument of \<^verbatim>\<open>exit\<close>, and 1 for any other
  exception that reaches the top.\<close>
definition exit_status :: "exn + unit \<Rightarrow> int" where
  "exit_status r = (case r of Inl (SystemExit n) \<Rightarrow> n mod 256 | Inl (Error _) \<Rightarrow> 1 | Inr _ \<Rightarrow> 0)"

section \<open>Notions used in the statements\<close>

definition stage_order :: "channel \<Rightarrow> nat \<Rightarrow> date \<Rightarrow> date \<Rightarrow> event list" where
  "stage_order channel_id level_qc start_date end_date =
     [Ev_download_channel channel_id start_date end_date level_qc,
      Ev_is_no_data_found,
      Ev_is_time_var_empty,
      Ev_modify_anmn_nrs_netcdf,
      Ev_has_var_only_fill_value,
      Ev_get_anmn_nrs_site_name,
      Ev_is_time_monotonic,
      Ev_pass_netcdf_checker,
      Ev_fix_data_code_from_filename,
      Ev_fix_provider_code_from_filename,
      Ev_re_search,
      Ev_move_to_incoming]"


definition processing_msg :: "nat \<Rightarrow> channel \<Rightarrow> level \<times> string" where
  "processing_msg level_qc channel_id =
     (INFO, ''>> QC'' @ str_nat level_qc @ '' - Processing channel '' @ channel_id)"

definition self_test_events :: "event list" where
  "self_test_events =
     [Ev_parse_aims_xml (xml_url 1 300),
      Ev_download_channel ''84329'' test_from_date test_thru_date 1,
      Ev_modify_anmn_nrs_netcdf]"

definition watermark_le :: "progress \<Rightarrow> progress \<Rightarrow> bool" where
  "watermark_le st st' = (\<forall>k w. st k = Some w \<longrightarrow> (\<exists>w'. st' k = Some w' \<and> w \<le> w'))"

fun runs :: "collab list \<Rightarrow> state \<Rightarrow> state" where
  "runs [] s = s"
| "runs (C # Cs) s = runs Cs (snd (main C s))"

section \<open>Notions used in the proofs\<close>

definition keeps :: "(state \<Rightarrow> state \<Rightarrow> bool) \<Rightarrow> 'a m \<Rightarrow> bool" where
  "keeps R c = (\<forall>s. R s (snd (c s)))"

definition preorder_on_states :: "(state \<Rightarrow> state \<Rightarrow> bool) \<Rightarrow> bool" where
  "preorder_on_states R = ((\<forall>s. R s s) \<and> (\<forall>a b c. R a b \<longrightarrow> R b c \<longrightarrow> R a c))"

definition stable0 :: "(state \<Rightarrow> state \<Rightarrow> bool) \<Rightarrow> bool" where
  "stable0 R = (preorder_on_states R \<and>
     (\<forall>s ev. R s (s\<lparr>trace := trace s @ [ev]\<rparr>)) \<and>
     (\<forall>s e. R s (s\<lparr>log := log s @ [e]\<rparr>)) \<and>
     (\<forall>s d. R s (s\<lparr>reclaimed := reclaimed s @ [d]\<rparr>)) \<and>
     (\<forall>s f. R s (s\<lparr>errors_dir := errors_dir s @ [f]\<rparr>)) \<and>
     (\<forall>s p. R s (s\<lparr>wip_dir := wip_dir s @ [p]\<rparr>)) \<and>
     (\<forall>s n. R s (s\<lparr>incoming := put_name n (incoming s)\<rparr>)))"

definition stable :: "(state \<Rightarrow> state \<Rightarrow> bool) \<Rightarrow> bool" where
  "stable R = (stable0 R \<and> (\<forall>s ch qc t. R s (s\<lparr>store := advance ch qc t (store s)\<rparr>)))"

section \<open>Concrete runs\<close>

definition file0 :: ncfile where
  "file0 = \<lparr>nc_path = ''/tmp/tmpq1/IMOS_ANMN_T_20160101.nc'', nc_classic = False, nc_gatts = [],
            nc_vars = [(''TEMP'', []), (''depth'', [(''units'', AStr ''degrees'')])], nc_data = 7\<rparr>"

definition file1 :: ncfile where
  "file1 = \<lparr>nc_path = ''/tmp/tmpq1/IMOS_ANMN_T_20160101.nc'', nc_classic = False,
            nc_gatts = [(''aims_channel_id'', AInt 84329), (''site_code'', AStr ''NRSYON''),
                        (''platform_code'', AStr ''Yongala NRS Buoy'')],
            nc_vars = [(''TEMP'', [(''coordinates'', AStr ''TIME LATITUDE LONGITUDE NOMINAL_DEPTH'')]),
                       (''NOMINAL_DEPTH'',
                        [(''units'', AStr ''m''), (''long_name'', AStr ''nominal depth''),
                         (''positive'', AStr ''down''), (''axis'', AStr ''Z''),
                         (''reference_datum'', AStr ''sea surface''),
                         (''valid_min'', AFloat (- 10)), (''valid_max'', AFloat 30)])],
            nc_data = 7\<rparr>"

definition info0 :: channel_info where
  "info0 = \<lparr>ci_channel_id = ''84329'', ci_from_date = 0, ci_thru_date = 25,
            ci_metadata_uuid = ''Not Available'', ci_site_name = ''Yongala NRS''\<rparr>"

definition xml0 :: aims_xml_info where
  "xml0 = \<lparr>xml_channels = [''84329'', ''84330''], xml_rows = []\<rparr>"

definition s0 :: state where
  "s0 = \<lparr>store = Map.empty, incoming = [], errors_dir = [], wip_dir = [], reclaimed = [],
         log = [], trace = []\<rparr>"

definition C_ok :: collab where
  "C_ok = \<lparr>SingleInstance = Inr (), set_up = Inr (), strftime = str_nat,
     parse_aims_xml = (\<lambda>calls url. Inr xml0),
     get_channel_info = (\<lambda>ch xml. Inr info0),
     create_list_of_dates_to_download = (\<lambda>ch qc from thru st.
        case st (ch, qc) of None \<Rightarrow> Inr ([from, 10, 20], [10, 20, thru])
        | Some w \<Rightarrow> if w < thru then Inr ([w], [thru]) else Inr ([], [])),
     download_channel = (\<lambda>calls ch sd ed qc. Inr (Some file0)),
     is_no_data_found = (\<lambda>f. Inr False),
     is_time_var_empty = (\<lambda>f. Inr False),
     modify_aims_netcdf = (\<lambda>f info. Inr f),
     get_main_anmn_nrs_var = (\<lambda>f. Inr ''TEMP''),
     convert_time_cf_to_imos = (\<lambda>f. Inr (True, f)),
     remove_dimension_from_netcdf = (\<lambda>f. Inr f),
     has_var_only_fill_value = (\<lambda>f v. Inr False),
     get_anmn_nrs_site_name = (\<lambda>f. Inr [''Yongala'']),
     is_time_monotonic = (\<lambda>f. Inr True),
     pass_netcdf_checker = (\<lambda>f tests. Inr True),
     fix_data_code_from_filename = (\<lambda>f. Inr f),
     fix_provider_code_from_filename = (\<lambda>f p. Inr f),
     remove_end_date_from_filename = (\<lambda>p. Inr p),
     md5 = (\<lambda>f. Inr md5_expected_value),
     shutil_move = (\<lambda>src dst. Inr ()),
     WIP_DIR = ''/wip''\<rparr>"

definition file_test :: ncfile where
  "file_test = set_gatt ''history'' (AStr ''data validation test only'')
                 (set_gatt ''date_created'' (AStr ''1970-01-01T00:00:00Z'') file1)"

definition file_misnamed :: ncfile where
  "file_misnamed = file1\<lparr>nc_path := ''/tmp/tmpq1/IMOS_ANMN_20160101.nc''\<rparr>"

definition s_tested :: state where
  "s_tested = s0\<lparr>wip_dir := [(''nc_unittest_2c354af05e56f3999fcfa3dda7bc8035.nc'', file_test)],
                 reclaimed := [''/tmp/tmpq1''],
                 trace := self_test_events\<rparr>"

definition s_backlog :: state where
  "s_backlog = s0\<lparr>incoming := replicate 200 ''pending.nc''\<rparr>"

definition s_over :: state where
  "s_over = s0\<lparr>incoming := replicate 201 ''pending.nc''\<rparr>"

definition s_marked :: state where
  "s_marked = s0\<lparr>store := [(''84329'', 0) \<mapsto> 20]\<rparr>"

definition C_cat0 :: collab where
  "C_cat0 = C_ok\<lparr>parse_aims_xml :=
     (\<lambda>calls url. if url = xml_url 0 300 then Inl (Error ''IOError'') else Inr xml0)\<rparr>"

text \<open>The catalogue answers the self-test, and is unavailable when asked again for level 1;
  every channel is already up to date.\<close>
definition C_cat1 :: collab where
  "C_cat1 = C_ok\<lparr>parse_aims_xml :=
     (\<lambda>calls url. if url = xml_url 1 300 \<and> calls \<noteq> [] then Inl (Error ''IOError'')
                  else Inr xml0),
     create_list_of_dates_to_download := (\<lambda>ch qc from thru st. Inr ([], []))\<rparr>"

definition s_level0 :: state where
  "s_level0 = s_tested
     \<lparr>log := [(INFO, ''Process ANMN NRS download from AIMS web service - QC level 0''),
               processing_msg 0 ''84329'',
               (INFO, ''QC0 - Channel 84329 already up to date''),
               processing_msg 0 ''84330'',
               (INFO, ''QC0 - Channel 84330 already up to date'')],
       trace := self_test_events @ [Ev_parse_aims_xml (xml_url 0 300)]\<rparr>"

text \<open>A download into a directory whose name has a match for the pattern of the file-name
  test, of a file whose own name has none.\<close>
definition file0_dir :: ncfile where
  "file0_dir = at_path ''/tmp/tmpq1/IMOS_ANMN_Z_/f.nc'' file0"

definition file1_dir :: ncfile where
  "file1_dir = at_path ''/tmp/tmpq1/IMOS_ANMN_Z_/f.nc'' file1"

definition C_dir :: collab where
  "C_dir = C_ok\<lparr>download_channel := (\<lambda>calls ch sd ed qc. Inr (Some file0_dir))\<rparr>"

definition C_nodata :: collab where
  "C_nodata = C_ok\<lparr>is_no_data_found := (\<lambda>f. Inr True)\<rparr>"






definition C_chanerr :: collab where
  "C_chanerr = C_ok\<lparr>get_channel_info :=
     (\<lambda>ch xml. if ch = ''84329'' then Inl (Error ''KeyError'') else Inr info0)\<rparr>"

definition C_md5 :: collab where
  "C_md5 = C_ok\<lparr>md5 := (\<lambda>f. Inr ''d41d8cd98f00b204e9800998ecf8427e'')\<rparr>"

definition C_regex :: collab where
  "C_regex = C_ok\<lparr>fix_provider_code_from_filename := (\<lambda>f p. Inr file_misnamed)\<rparr>"

section \<open>Relations that every step keeps\<close>

lemma keepsD: "keeps R c \<Longrightarrow> c s = (r, s') \<Longrightarrow> R s s'"
  by (auto simp: keeps_def dest: spec [of _ s])

lemma keeps_ret: "preorder_on_states R \<Longrightarrow> keeps R (ret x)"
  by (simp add: keeps_def ret_def preorder_on_states_def)

lemma keeps_throw: "preorder_on_states R \<Longrightarrow> keeps R (throw e)"
  by (simp add: keeps_def throw_def preorder_on_states_def)

lemma keeps_lift: "preorder_on_states R \<Longrightarrow> keeps R (lift r)"
  by (simp add: keeps_def lift_def preorder_on_states_def)

lemma keeps_close_logger: "preorder_on_states R \<Longrightarrow> keeps R close_logger"
  by (simp add: close_logger_def keeps_ret)

lemma keeps_bnd:
  assumes "preorder_on_states R" "keeps R c" "\<And>x. keeps R (f x)"
  shows "keeps R (bnd c f)"
proof -
  have "R s (snd (bnd c f s))" for s
  proof (cases "c s")
    case (Pair r s')
    with assms(2) have 1: "R s s'" by (auto dest: keepsD)
    show ?thesis
    proof (cases r)
      case (Inl e)
      with Pair 1 show ?thesis by (simp add: bnd_def)
    next
      case (Inr x)
      from assms(3) have "R s' (snd (f x s'))" by (simp add: keeps_def)
      with 1 assms(1) have "R s (snd (f x s'))" unfolding preorder_on_states_def by blast
      with Pair Inr show ?thesis by (simp add: bnd_def)
    qed
  qed
  then show ?thesis by (simp add: keeps_def)
qed

lemma keeps_seq:
  "preorder_on_states R \<Longrightarrow> keeps R c \<Longrightarrow> keeps R d \<Longrightarrow> keeps R (seq c d)"
  unfolding seq_def by (rule keeps_bnd) auto

lemma keeps_try_except:
  assumes "preorder_on_states R" "keeps R c" "\<And>e. keeps R (h e)"
  shows "keeps R (try_except c h)"
proof -
  have "R s (snd (try_except c h s))" for s
  proof (cases "c s")
    case (Pair r s')
    with assms(2) have 1: "R s s'" by (auto dest: keepsD)
    show ?thesis
    proof (cases r)
      case (Inr x)
      with Pair 1 show ?thesis by (simp add: try_except_def)
    next
      case (Inl e)
      from assms(3) have "R s' (snd (h e s'))" by (simp add: keeps_def)
      with 1 assms(1) have "R s (snd (h e s'))" unfolding preorder_on_states_def by blast
      with Pair Inl show ?thesis by (simp add: try_except_def)
    qed
  qed
  then show ?thesis by (simp add: keeps_def)
qed

lemma keeps_if: "keeps R c \<Longrightarrow> keeps R d \<Longrightarrow> keeps R (if b then c else d)"
  by simp

lemma keeps_case_option:
  "keeps R c \<Longrightarrow> (\<And>y. keeps R (d y)) \<Longrightarrow> keeps R (case x of None \<Rightarrow> c | Some y \<Rightarrow> d y)"
  by (cases x) simp_all

lemma keeps_case_prod: "(\<And>a b. keeps R (f a b)) \<Longrightarrow> keeps R (case p of (a, b) \<Rightarrow> f a b)"
  by (cases p) simp

lemmas keeps_struct = keeps_ret keeps_throw keeps_lift keeps_close_logger keeps_bnd keeps_seq
  keeps_try_except keeps_if keeps_case_option keeps_case_prod

lemmas m_defs = ret_def throw_def lift_def bnd_def seq_def try_except_def emit_def logger_def
  rmtree_def copy_to_errors_def copy_to_wip_def fetch_aims_xml_def fetch_channel_def

lemma stable0_pre: "stable0 R \<Longrightarrow> preorder_on_states R"
  by (simp add: stable0_def)

lemma stable_stable0: "stable R \<Longrightarrow> stable0 R"
  by (simp add: stable_def)

lemma keeps_read: "preorder_on_states R \<Longrightarrow> keeps R (\<lambda>s. (g s, s))"
  by (simp add: keeps_def preorder_on_states_def)

lemma stable0_prims:
  assumes "stable0 R"
  shows "keeps R (emit ev)" "keeps R (logger lv msg)" "keeps R (rmtree d)"
    "keeps R (copy_to_errors f)" "keeps R (copy_to_wip n f)"
    "keeps R (\<lambda>s. (Inr (), s\<lparr>incoming := put_name nm (incoming s)\<rparr>))"
    "keeps R (fetch_aims_xml C url)" "keeps R (fetch_channel C ch sd ed qc)"
  using assms
  by (simp_all add: stable0_def keeps_def emit_def logger_def rmtree_def copy_to_errors_def
      copy_to_wip_def fetch_aims_xml_def fetch_channel_def)

lemma stable_save: "stable R \<Longrightarrow> keeps R (save_channel_info ch xml qc t)"
  by (simp add: stable_def keeps_def save_channel_info_def)

lemmas keeps0 = keeps_struct keeps_read stable0_prims stable0_pre

lemma keeps_move_to_incoming: "stable0 R \<Longrightarrow> keeps R (move_to_incoming C f)"
  unfolding move_to_incoming_def Let_def by (intro keeps0)

lemma keeps_name_and_publish: "stable0 R \<Longrightarrow> keeps R (name_and_publish C ch f)"
  unfolding name_and_publish_def by (intro keeps0 keeps_move_to_incoming)

lemma keeps_check_file: "stable0 R \<Longrightarrow> keeps R (check_file C ch f)"
  unfolding check_file_def by (intro keeps0 keeps_name_and_publish)

lemma keeps_process_file: "stable0 R \<Longrightarrow> keeps R (process_file C ch info f)"
  unfolding process_file_def by (intro keeps0 keeps_check_file)

lemma keeps_fetch_and_process: "stable0 R \<Longrightarrow> keeps R (fetch_and_process C ch info qc sd ed)"
  unfolding fetch_and_process_def by (intro keeps0 keeps_process_file)

lemma keeps_process_chunk: "stable R \<Longrightarrow> keeps R (process_chunk C ch info xml qc dates)"
  unfolding process_chunk_def
  by (intro keeps0 keeps_fetch_and_process stable_save stable_stable0)

lemma keeps_chunk_loop: "stable R \<Longrightarrow> keeps R (chunk_loop C ch info xml qc cs)"
proof (induction cs)
  case Nil
  then show ?case by (simp add: keeps_ret stable0_pre stable_stable0)
next
  case (Cons c cs)
  then show ?case
    unfolding chunk_loop.simps
    by (intro keeps0 keeps_process_chunk stable_stable0)
qed

lemma keeps_process_monthly_channel:
  "stable R \<Longrightarrow> keeps R (process_monthly_channel C ch xml qc)"
  unfolding process_monthly_channel_def
  by (intro keeps0 keeps_chunk_loop stable_stable0)

lemma keeps_guarded_channel: "stable R \<Longrightarrow> keeps R (guarded_channel C ch xml qc)"
  unfolding guarded_channel_def
  by (intro keeps0 keeps_process_monthly_channel stable_stable0)

lemma keeps_channel_loop: "stable R \<Longrightarrow> keeps R (channel_loop C xml qc chs)"
proof (induction chs)
  case Nil
  then show ?case by (simp add: keeps_ret stable0_pre stable_stable0)
next
  case (Cons c cs)
  then show ?case
    unfolding channel_loop.simps
    by (intro keeps0 keeps_guarded_channel stable_stable0)
qed

lemma keeps_process_qc_level: "stable R \<Longrightarrow> keeps R (process_qc_level C qc)"
  unfolding process_qc_level_def
  by (intro keeps0 keeps_channel_loop stable_stable0)

lemma keeps_setUp: "stable0 R \<Longrightarrow> keeps R (setUp C)"
  unfolding setUp_def by (intro keeps0)

lemma keeps_tearDown: "stable0 R \<Longrightarrow> keeps R (tearDown f d)"
  unfolding tearDown_def by (intro keeps0)

lemma keeps_data_validation_test: "stable0 R \<Longrightarrow> keeps R (data_validation_test C)"
  unfolding data_validation_test_def by (intro keeps0 keeps_setUp keeps_tearDown)

lemma keeps_after_test: "stable R \<Longrightarrow> keeps R (after_test C ok)"
  unfolding after_test_def qc_levels_def
  by (intro keeps0 keeps_process_qc_level stable_stable0)

lemma keeps_main: "stable R \<Longrightarrow> keeps R (main C)"
  unfolding main_def
  by (intro keeps0 keeps_after_test keeps_data_validation_test stable_stable0)

section \<open>The stages of one chunk\<close>







lemma chunk_loop_step:
  "process_chunk C ch info xml qc dates s = (r, s') \<Longrightarrow>
   chunk_loop C ch info xml qc (dates # rest) s =
     (case r of Inl e \<Rightarrow> (Inl e, s')
      | Inr x \<Rightarrow> if breaks x then (Inr (), s') else chunk_loop C ch info xml qc rest s')"
  by (simp add: m_defs split: sum.splits)



lemma advance_covers:
  "\<exists>w. advance ch qc t st (ch, qc) = Some w \<and> t \<le> w"
  by (simp add: advance_def split: option.splits)






section \<open>Channels, watermarks and runs\<close>

lemma watermark_le_refl: "watermark_le st st"
  by (simp add: watermark_le_def)

lemma watermark_le_trans: "watermark_le a b \<Longrightarrow> watermark_le b c \<Longrightarrow> watermark_le a c"
  unfolding watermark_le_def by (meson le_trans)

lemma watermark_le_advance: "watermark_le st (advance ch qc t st)"
  by (auto simp: watermark_le_def advance_def split: option.splits)

lemma stable_watermark: "stable (\<lambda>s s'. watermark_le (store s) (store s'))"
  unfolding stable_def stable0_def preorder_on_states_def
  by (auto intro: watermark_le_refl watermark_le_trans watermark_le_advance)

lemma stable_log: "stable (\<lambda>s s'. prefix (log s) (log s'))"
  unfolding stable_def stable0_def preorder_on_states_def by auto

lemma stable_trace: "stable (\<lambda>s s'. prefix (trace s) (trace s'))"
  unfolding stable_def stable0_def preorder_on_states_def by auto

lemma advance_earlier_noop: "st (ch, qc) = Some w \<Longrightarrow> t < w \<Longrightarrow> advance ch qc t st = st"
  by (simp add: advance_def)

lemma runs_watermark: "watermark_le (store s) (store (runs Cs s))"
proof (induction Cs arbitrary: s)
  case Nil
  show ?case by (simp add: watermark_le_refl)
next
  case (Cons C Cs)
  have "watermark_le (store s) (store (snd (main C s)))"
    using keeps_main [OF stable_watermark, of C] by (simp add: keeps_def)
  with Cons [of "snd (main C s)"] show ?case
    by (auto intro: watermark_le_trans)
qed

lemma guarded_channel_returns: "fst (guarded_channel C ch xml qc s) = Inr ()"
  by (auto simp: guarded_channel_def m_defs split: prod.splits sum.splits)

lemma guarded_channel_caught:
  "process_monthly_channel C ch xml qc s = (Inl e, s') \<Longrightarrow>
   guarded_channel C ch xml qc s = (Inr (), s'\<lparr>log := log s' @ [(ERROR, unknown_reason_msg ch qc)]\<rparr>)"
  by (simp add: guarded_channel_def m_defs)

lemma channel_loop_step:
  "channel_loop C xml qc (ch # chs) s = channel_loop C xml qc chs (snd (guarded_channel C ch xml qc s))"
  using guarded_channel_returns [of C ch xml qc s]
  by (cases "guarded_channel C ch xml qc s") (simp add: m_defs)

lemma channel_loop_returns: "fst (channel_loop C xml qc chs s) = Inr ()"
  by (induction chs arbitrary: s) (simp_all add: channel_loop_step ret_def del: channel_loop.simps(2))

lemma log_grows:
  "keeps (\<lambda>s s'. prefix (log s) (log s')) c \<Longrightarrow> e \<in> set (log s) \<Longrightarrow> e \<in> set (log (snd (c s)))"
  by (auto simp: keeps_def dest: set_mono_prefix)

lemma guarded_channel_logs_start:
  "processing_msg qc ch \<in> set (log (snd (guarded_channel C ch xml qc s)))"
proof -
  let ?s1 = "s\<lparr>log := log s @ [processing_msg qc ch]\<rparr>"
  let ?rest = "bnd (lift (get_channel_info C ch xml)) (\<lambda>channel_id_info.
     bnd (\<lambda>s. (create_list_of_dates_to_download C ch qc
                  (ci_from_date channel_id_info) (ci_thru_date channel_id_info) (store s), s))
         (\<lambda>(start_dates, end_dates).
     seq (if length start_dates \<noteq> 0
          then chunk_loop C ch channel_id_info xml qc (zip start_dates end_dates)
          else logger INFO (''QC'' @ str_nat qc @ '' - Channel '' @ ch @ '' already up to date''))
         close_logger))"
  have pm: "process_monthly_channel C ch xml qc s = ?rest ?s1"
    by (simp add: process_monthly_channel_def seq_def bnd_def logger_def processing_msg_def)
  have "keeps (\<lambda>s s'. prefix (log s) (log s')) ?rest"
    using stable_log by (intro keeps0 keeps_chunk_loop stable_stable0)
  then have 1: "processing_msg qc ch \<in> set (log (snd (?rest ?s1)))"
    by (rule log_grows) simp
  show ?thesis
  proof (cases "?rest ?s1")
    case (Pair r s')
    with 1 pm show ?thesis
      by (cases r) (simp_all add: guarded_channel_def try_except_def logger_def)
  qed
qed

lemma channel_loop_logs_start:
  "c \<in> set chs \<Longrightarrow> processing_msg qc c \<in> set (log (snd (channel_loop C xml qc chs s)))"
proof (induction chs arbitrary: s)
  case Nil
  then show ?case by simp
next
  case (Cons a chs)
  show ?case
  proof (cases "c = a")
    case True
    have "processing_msg qc a \<in> set (log (snd (guarded_channel C a xml qc s)))"
      by (rule guarded_channel_logs_start)
    then have "processing_msg qc a \<in> set (log (snd (channel_loop C xml qc chs (snd (guarded_channel C a xml qc s)))))"
      by (rule log_grows [OF keeps_channel_loop [OF stable_log]])
    with True show ?thesis by (simp only: channel_loop_step)
  next
    case False
    with Cons.prems have "c \<in> set chs" by simp
    from Cons.IH [OF this] show ?thesis by (simp only: channel_loop_step)
  qed
qed

lemma setUp_effects:
  "setUp C s = (r, s') \<Longrightarrow>
     store s' = store s \<and> incoming s' = incoming s \<and> log s' = log s \<and>
     (\<exists>ev. trace s' = trace s @ Ev_parse_aims_xml (xml_url 1 300) # ev \<and>
           prefix ev (tl self_test_events)) \<and>
     (\<forall>f. r = Inr f \<longrightarrow> trace s' = trace s @ self_test_events)"
  by (auto simp: setUp_def fetch_aims_xml_def m_defs self_test_events_def
      split: sum.splits option.splits prod.splits)

lemma tearDown_effects:
  "tearDown f d s = (r, s') \<Longrightarrow>
     store s' = store s \<and> incoming s' = incoming s \<and> trace s' = trace s \<and> log s' = log s"
  by (auto simp: tearDown_def m_defs split: option.splits)

lemma data_validation_test_effects:
  assumes "data_validation_test C s = (r, s')"
  shows "(\<exists>b. r = Inr b) \<and> store s' = store s \<and> incoming s' = incoming s \<and> log s' = log s \<and>
         (\<exists>ev. trace s' = trace s @ Ev_parse_aims_xml (xml_url 1 300) # ev \<and>
               prefix ev (tl self_test_events))"
proof (cases "setUp C s")
  case (Pair r1 s1)
  note su = setUp_effects [OF Pair]
  show ?thesis
  proof (cases r1)
    case (Inl e)
    with Pair assms su show ?thesis
      by (auto simp: data_validation_test_def m_defs)
  next
    case (Inr f)
    obtain d p where tv: "test_aims_validation C f = (d, p)"
      by (cases "test_aims_validation C f")
    obtain r2 s2 where td: "tearDown f d s1 = (r2, s2)"
      by (cases "tearDown f d s1")
    note te = tearDown_effects [OF td]
    from Pair Inr tv td assms have "s' = s2 \<and> (\<exists>b. r = Inr b)"
      by (cases r2) (auto simp: data_validation_test_def m_defs)
    with su te show ?thesis by auto
  qed
qed

lemma data_validation_test_md5_mismatch:
  assumes "setUp C s = (Inr f, s1)" and "md5 C f \<noteq> Inr md5_expected_value"
  shows "fst (data_validation_test C s) = Inr False \<and>
         trace (snd (data_validation_test C s)) = trace s @ self_test_events"
proof -
  obtain d where tv: "test_aims_validation C f = (d, False)"
    using assms(2) by (cases "md5 C f") (auto simp: test_aims_validation_def)
  obtain r2 s2 where td: "tearDown f d s1 = (r2, s2)"
    by (cases "tearDown f d s1")
  note te = tearDown_effects [OF td]
  have "data_validation_test C s = (Inr False, s2)"
    using assms(1) tv td by (cases r2) (auto simp: data_validation_test_def m_defs)
  with te setUp_effects [OF assms(1)] show ?thesis by simp
qed

lemma after_test_backlog:
  "200 \<le> length (incoming s) \<Longrightarrow>
   after_test C ok s =
     (Inl (SystemExit 0),
      s\<lparr>log := log s @ [(WARNING, ''Operation aborted, too many files in INCOMING_DIR'')]\<rparr>)"
  by (simp add: after_test_def m_defs)

lemma after_test_failed:
  "length (incoming s) < 200 \<Longrightarrow>
   after_test C False s =
     (Inl (SystemExit 0), s\<lparr>log := log s @ [(WARNING, ''Data validation unittests failed'')]\<rparr>)"
  by (simp add: after_test_def m_defs close_logger_def)

lemma after_test_passed:
  "length (incoming s) < 200 \<Longrightarrow>
   after_test C True s =
     (case qc_levels C s of (Inl e, s') \<Rightarrow> (Inl e, s') | (Inr u, s') \<Rightarrow> (Inl (SystemExit 0), s'))"
  by (simp add: after_test_def m_defs close_logger_def split: prod.splits sum.splits)

lemma main_after_startup:
  "SingleInstance C = Inr () \<Longrightarrow> set_up C = Inr () \<Longrightarrow> data_validation_test C s = (Inr ok, s1) \<Longrightarrow>
   main C s = after_test C ok s1"
  by (simp add: main_def m_defs)

lemma process_qc_level_catalog_failure:
  assumes "parse_aims_xml C (trace s) (xml_url level_qc 300) = Inl e"
  shows "process_qc_level C level_qc s =
     (Inl (SystemExit 1),
      s\<lparr>log := log s @ [(INFO, ''Process ANMN NRS download from AIMS web service - QC level ''
                               @ str_nat level_qc),
                        (ERROR, ''RSS feed not available'')],
        trace := trace s @ [Ev_parse_aims_xml (xml_url level_qc 300)]\<rparr>)"
  using assms by (simp add: process_qc_level_def fetch_aims_xml_def m_defs)

lemma process_qc_level_result:
  "fst (process_qc_level C level_qc s) = Inr () \<or> fst (process_qc_level C level_qc s) = Inl (SystemExit 1)"
proof (cases "parse_aims_xml C (trace s) (xml_url level_qc 300)")
  case (Inl e)
  then show ?thesis by (simp add: process_qc_level_catalog_failure)
next
  case (Inr xml)
  then have "process_qc_level C level_qc s =
      channel_loop C xml level_qc (xml_channels xml)
        (s\<lparr>log := log s @ [(INFO, ''Process ANMN NRS download from AIMS web service - QC level ''
                               @ str_nat level_qc)],
           trace := trace s @ [Ev_parse_aims_xml (xml_url level_qc 300)]\<rparr>)"
    by (simp add: process_qc_level_def fetch_aims_xml_def m_defs)
  then show ?thesis by (simp add: channel_loop_returns)
qed

lemma data_validation_test_trace:
  assumes "setUp C s = (Inr f, s1)"
  shows "trace (snd (data_validation_test C s)) = trace s @ self_test_events"
proof -
  obtain d p where tv: "test_aims_validation C f = (d, p)"
    by (cases "test_aims_validation C f")
  obtain r2 s2 where td: "tearDown f d s1 = (r2, s2)"
    by (cases "tearDown f d s1")
  note te = tearDown_effects [OF td]
  have "snd (data_validation_test C s) = s2"
    using assms tv td by (cases r2) (auto simp: data_validation_test_def m_defs)
  with te setUp_effects [OF assms] show ?thesis by simp
qed

lemma main_backlog:
  assumes "SingleInstance C = Inr ()" and "set_up C = Inr ()"
    and "200 \<le> length (incoming s)"
  shows "main C s =
           (Inl (SystemExit 0),
            (snd (data_validation_test C s))
              \<lparr>log := log s @ [(WARNING, ''Operation aborted, too many files in INCOMING_DIR'')]\<rparr>)"
proof -
  obtain r s1 where dv: "data_validation_test C s = (r, s1)"
    by (cases "data_validation_test C s")
  note ef = data_validation_test_effects [OF dv]
  then obtain ok where r: "r = Inr ok" by auto
  from ef assms(3) have "200 \<le> length (incoming s1)" by simp
  then have "main C s = (Inl (SystemExit 0),
      s1\<lparr>log := log s1 @ [(WARNING, ''Operation aborted, too many files in INCOMING_DIR'')]\<rparr>)"
    using main_after_startup [OF assms(1,2) dv [unfolded r]] by (simp add: after_test_backlog)
  with ef dv show ?thesis by simp
qed

section \<open>Evaluation of the concrete runs\<close>

lemma py_int_84329: "py_int ''84329'' = Inr 84329"
  by (simp add: py_int_def is_space_def is_digit_def digits_val_def)

lemma site_of_Yongala: "site_of ''Yongala NRS'' = Some (''NRSYON'', ''Yongala NRS Buoy'')"
  by (simp add: site_of_def)

lemma modify_at_path:
  "modify_aims_netcdf C = modify_aims_netcdf C_ok \<Longrightarrow>
   get_main_anmn_nrs_var C = get_main_anmn_nrs_var C_ok \<Longrightarrow>
   convert_time_cf_to_imos C = convert_time_cf_to_imos C_ok \<Longrightarrow>
   remove_dimension_from_netcdf C = remove_dimension_from_netcdf C_ok \<Longrightarrow>
   modify_anmn_nrs_netcdf C (at_path p file0) info0 = Inr (True, at_path p file1)"
  by (simp add: modify_anmn_nrs_netcdf_def sbind_def C_ok_def info0_def py_int_84329
      site_of_Yongala file0_def file1_def set_gatt_def set_int_gatt_def fix_depth_def
      fix_DEPTH_def has_var_def set_vatt_def renameVariable_def set_main_coordinates_def
      at_path_def)

lemma modify_C_ok:
  "modify_aims_netcdf C = modify_aims_netcdf C_ok \<Longrightarrow>
   get_main_anmn_nrs_var C = get_main_anmn_nrs_var C_ok \<Longrightarrow>
   convert_time_cf_to_imos C = convert_time_cf_to_imos C_ok \<Longrightarrow>
   remove_dimension_from_netcdf C = remove_dimension_from_netcdf C_ok \<Longrightarrow>
   modify_anmn_nrs_netcdf C file0 info0 = Inr (True, file1)"
  using modify_at_path [of C "nc_path file0"]
  by (simp add: at_path_def file0_def file1_def)

lemma modify_C_dir:
  "modify_aims_netcdf C = modify_aims_netcdf C_ok \<Longrightarrow>
   get_main_anmn_nrs_var C = get_main_anmn_nrs_var C_ok \<Longrightarrow>
   convert_time_cf_to_imos C = convert_time_cf_to_imos C_ok \<Longrightarrow>
   remove_dimension_from_netcdf C = remove_dimension_from_netcdf C_ok \<Longrightarrow>
   modify_anmn_nrs_netcdf C file0_dir info0 = Inr (True, file1_dir)"
  unfolding file0_dir_def file1_dir_def by (rule modify_at_path)

lemma file1_dir_path:
  "re_search (nc_path file1_dir)"
  "\<not> re_search (basename (nc_path file1_dir))"
  "dirname (nc_path file1_dir) = ''/tmp/tmpq1/IMOS_ANMN_Z_''"
  "basename (nc_path file1_dir) = ''f.nc''"
  "splitext_root ''f.nc'' = ''f''"
  by (simp_all add: file1_dir_def at_path_def regex_at_def is_upper_def basename_def dirname_def
      rstrip_sep_def splitext_root_def)


lemma dirname_file1: "dirname (nc_path file1) = ''/tmp/tmpq1''"
  by (simp add: file1_def dirname_def rstrip_sep_def)



lemma xml_url_0: "xml_url 0 300 = ''http://data.aims.gov.au/gbroosdata/services/rss/netcdf/level0/300''"
  by (simp add: xml_url_def str_nat.simps)

lemma xml_url_1:
  "xml_url 1 300 = ''http://data.aims.gov.au/gbroosdata/services/rss/netcdf/level1/300''"
  "xml_url (Suc 0) 300 = ''http://data.aims.gov.au/gbroosdata/services/rss/netcdf/level1/300''"
  by (simp_all add: xml_url_def str_nat.simps)

lemmas pipeline_defs = process_chunk_def fetch_and_process_def process_file_def check_file_def
  name_and_publish_def move_to_incoming_def save_channel_info_def breaks_def m_defs

lemma setUp_eval:
  assumes "parse_aims_xml C (trace s) (xml_url 1 300) = Inr xml0"
    and "get_channel_info C ''84329'' xml0 = Inr info0"
    and "download_channel C (trace s @ [Ev_parse_aims_xml (xml_url 1 300)]) ''84329''
           test_from_date test_thru_date 1 = Inr (Some file0)"
    and "modify_anmn_nrs_netcdf C file0 info0 = Inr (True, file1)"
  shows "setUp C s = (Inr file_test, s\<lparr>trace := trace s @ self_test_events\<rparr>)"
  using assms
  by (simp add: setUp_def fetch_aims_xml_def m_defs self_test_events_def file_test_def)

lemma xml_urls_differ: "xml_url 1 300 \<noteq> xml_url 0 300" "xml_url (Suc 0) 300 \<noteq> xml_url 0 300"
  unfolding xml_url_0 xml_url_1 by simp_all

lemma setUp_C_ok: "setUp C_ok s = (Inr file_test, s\<lparr>trace := trace s @ self_test_events\<rparr>)"
  by (rule setUp_eval) (simp_all add: C_ok_def modify_C_ok)

lemma setUp_C_cat0: "setUp C_cat0 s = (Inr file_test, s\<lparr>trace := trace s @ self_test_events\<rparr>)"
  by (rule setUp_eval) (simp_all add: C_cat0_def C_ok_def modify_C_ok xml_urls_differ)

lemma setUp_C_md5: "setUp C_md5 s = (Inr file_test, s\<lparr>trace := trace s @ self_test_events\<rparr>)"
  by (rule setUp_eval) (simp_all add: C_md5_def C_ok_def modify_C_ok)

lemma dirname_file_test: "dirname (nc_path file_test) = ''/tmp/tmpq1''"
  by (simp add: file_test_def set_gatt_def dirname_file1)

lemma setUp_C_cat1: "setUp C_cat1 s0 = (Inr file_test, s0\<lparr>trace := trace s0 @ self_test_events\<rparr>)"
  by (rule setUp_eval) (simp_all add: C_cat1_def C_ok_def modify_C_ok s0_def)

lemma data_validation_test_C_cat1: "data_validation_test C_cat1 s0 = (Inr True, s_tested)"
proof -
  have "md5 C_cat1 file_test = Inr md5_expected_value"
    by (simp add: C_cat1_def C_ok_def)
  then show ?thesis
    by (simp add: data_validation_test_def setUp_C_cat1 [unfolded s0_def] test_aims_validation_def
        tearDown_def m_defs md5_expected_value_def dirname_file_test s_tested_def s0_def)
qed

lemma process_qc_level_C_cat1: "process_qc_level C_cat1 0 s_tested = (Inr (), s_level0)"
  by (simp add: process_qc_level_def guarded_channel_def process_monthly_channel_def
      close_logger_def m_defs C_cat1_def C_ok_def xml0_def xml_url_0 xml_url_1 processing_msg_def
      str_nat.simps s_level0_def s_tested_def s0_def self_test_events_def)

lemma parse_aims_xml_C_cat1:
  "parse_aims_xml C_cat1 (trace s_level0) (xml_url 1 300) = Inl (Error ''IOError'')"
  by (simp add: C_cat1_def s_level0_def self_test_events_def)

lemma process_chunk_C_dir:
  "process_chunk C_dir ''84329'' info0 xml0 0 (0, 10) s0 =
     (Inr Moved_to_incoming,
      s0\<lparr>store := [(''84329'', 0) \<mapsto> 10],
         incoming := [''f.2c354af05e56f3999fcfa3dda7bc8035.nc''],
         reclaimed := [''/tmp/tmpq1/IMOS_ANMN_Z_''],
         trace := stage_order ''84329'' 0 0 10\<rparr>)"
  by (simp add: pipeline_defs C_dir_def C_ok_def modify_C_dir file1_dir_path put_name_def Let_def
      md5_expected_value_def advance_def stage_order_def s0_def)

lemma data_validation_test_C_cat0: "data_validation_test C_cat0 s0 = (Inr True, s_tested)"
proof -
  have "md5 C_cat0 file_test = Inr md5_expected_value"
    by (simp add: C_cat0_def C_ok_def)
  then show ?thesis
    by (simp add: data_validation_test_def setUp_C_cat0 test_aims_validation_def tearDown_def m_defs
        md5_expected_value_def dirname_file_test s_tested_def s0_def)
qed







lemma process_monthly_channel_C_chanerr:
  "process_monthly_channel C_chanerr ''84329'' xml0 0 s0 =
     (Inl (Error ''KeyError''), s0\<lparr>log := [processing_msg 0 ''84329'']\<rparr>)"
  by (simp add: process_monthly_channel_def m_defs C_chanerr_def C_ok_def processing_msg_def s0_def)

lemma re_search_file_misnamed: "\<not> re_search (nc_path file_misnamed)"
  by (simp add: file_misnamed_def regex_at_def is_upper_def)

section \<open>The claims\<close>

text \<open>
  Claim C1, as amended.  The claim says that an unavailable catalogue ends the processing of
  its qc-level only.  The script calls \<^verbatim>\<open>exit(1)\<close> in the handler instead.  So: when
  \<^verbatim>\<open>parse_aims_xml\<close> raises for a qc-level, \<^verbatim>\<open>process_qc_level\<close> logs
  ``RSS feed not available'' and raises \<^verbatim>\<open>SystemExit(1)\<close> without touching any channel.  In a run
  whose self-test has passed and whose backlog is below 200: when the catalogue of level 0 is
  unavailable, the run ends there with status 1 and level 1 is not started; when level 0 has been
  processed and the catalogue of level 1 is then unavailable, the run ends there with status 1.
\<close>
theorem catalog_failure_ends_process:
  assumes "SingleInstance C = Inr ()" and "set_up C = Inr ()"
    and "data_validation_test C s = (Inr True, s1)"
    and "length (incoming s) < 200"
  shows "(parse_aims_xml C (trace t) (xml_url level_qc 300) = Inl e \<longrightarrow>
            process_qc_level C level_qc t =
              (Inl (SystemExit 1),
               t\<lparr>log := log t @ [(INFO, ''Process ANMN NRS download from AIMS web service - QC level ''
                                        @ str_nat level_qc),
                                 (ERROR, ''RSS feed not available'')],
                 trace := trace t @ [Ev_parse_aims_xml (xml_url level_qc 300)]\<rparr>)) \<and>
         (parse_aims_xml C (trace s1) (xml_url 0 300) = Inl e0 \<longrightarrow>
            main C s = process_qc_level C 0 s1 \<and> exit_status (fst (main C s)) = 1) \<and>
         (process_qc_level C 0 s1 = (Inr (), s2) \<and>
          parse_aims_xml C (trace s2) (xml_url 1 300) = Inl e1 \<longrightarrow>
            main C s = process_qc_level C 1 s2 \<and> exit_status (fst (main C s)) = 1)"
proof -
  from data_validation_test_effects [OF assms(3)] assms(4)
  have inc: "length (incoming s1) < 200" by simp
  have m: "main C s =
      (case qc_levels C s1 of (Inl e, s') \<Rightarrow> (Inl e, s') | (Inr u, s') \<Rightarrow> (Inl (SystemExit 0), s'))"
    using main_after_startup [OF assms(1-3)] after_test_passed [OF inc] by simp
  have a: "parse_aims_xml C (trace t) (xml_url level_qc 300) = Inl e \<longrightarrow>
            process_qc_level C level_qc t =
              (Inl (SystemExit 1),
               t\<lparr>log := log t @ [(INFO, ''Process ANMN NRS download from AIMS web service - QC level ''
                                        @ str_nat level_qc),
                                 (ERROR, ''RSS feed not available'')],
                 trace := trace t @ [Ev_parse_aims_xml (xml_url level_qc 300)]\<rparr>)"
    by (simp add: process_qc_level_catalog_failure)
  have b: "parse_aims_xml C (trace s1) (xml_url 0 300) = Inl e0 \<longrightarrow>
            main C s = process_qc_level C 0 s1 \<and> exit_status (fst (main C s)) = 1"
  proof
    assume h: "parse_aims_xml C (trace s1) (xml_url 0 300) = Inl e0"
    note f = process_qc_level_catalog_failure [OF h]
    have "qc_levels C s1 = process_qc_level C 0 s1"
      by (simp add: qc_levels_def m_defs f)
    with m f show "main C s = process_qc_level C 0 s1 \<and> exit_status (fst (main C s)) = 1"
      by (simp add: exit_status_def)
  qed
  have c: "process_qc_level C 0 s1 = (Inr (), s2) \<and>
          parse_aims_xml C (trace s2) (xml_url 1 300) = Inl e1 \<longrightarrow>
            main C s = process_qc_level C 1 s2 \<and> exit_status (fst (main C s)) = 1"
  proof
    assume h: "process_qc_level C 0 s1 = (Inr (), s2) \<and>
          parse_aims_xml C (trace s2) (xml_url 1 300) = Inl e1"
    then have p1: "parse_aims_xml C (trace s2) (xml_url 1 300) = Inl e1" by simp
    note f = process_qc_level_catalog_failure [OF p1]
    have "qc_levels C s1 = process_qc_level C 1 s2"
      using h by (simp add: qc_levels_def seq_def bnd_def)
    with m f show "main C s = process_qc_level C 1 s2 \<and> exit_status (fst (main C s)) = 1"
      by (simp add: exit_status_def)
  qed
  from a b c show ?thesis by blast
qed

theorem catalog_failure_ends_process_witness:
  "SingleInstance C_cat0 = Inr () \<and> set_up C_cat0 = Inr () \<and>
   data_validation_test C_cat0 s0 = (Inr True, s_tested) \<and> length (incoming s0) < 200 \<and>
   parse_aims_xml C_cat0 (trace s_tested) (xml_url 0 300) = Inl (Error ''IOError'') \<and>
   main C_cat0 s0 = process_qc_level C_cat0 0 s_tested \<and>
   fst (process_qc_level C_cat0 0 s_tested) = Inl (SystemExit 1) \<and>
   exit_status (fst (main C_cat0 s0)) = 1 \<and>
   SingleInstance C_cat1 = Inr () \<and> set_up C_cat1 = Inr () \<and>
   data_validation_test C_cat1 s0 = (Inr True, s_tested) \<and>
   process_qc_level C_cat1 0 s_tested = (Inr (), s_level0) \<and>
   parse_aims_xml C_cat1 (trace s_level0) (xml_url 1 300) = Inl (Error ''IOError'') \<and>
   main C_cat1 s0 = process_qc_level C_cat1 1 s_level0 \<and>
   fst (process_qc_level C_cat1 1 s_level0) = Inl (SystemExit 1) \<and>
   exit_status (fst (main C_cat1 s0)) = 1"
proof -
  have u0: "SingleInstance C_cat0 = Inr ()" "set_up C_cat0 = Inr ()"
    by (simp_all add: C_cat0_def C_ok_def)
  have u1: "SingleInstance C_cat1 = Inr ()" "set_up C_cat1 = Inr ()"
    by (simp_all add: C_cat1_def C_ok_def)
  have i: "length (incoming s0) < 200"
    by (simp add: s0_def)
  have h0: "parse_aims_xml C_cat0 (trace s_tested) (xml_url 0 300) = Inl (Error ''IOError'')"
    by (simp add: C_cat0_def)
  note h1 = parse_aims_xml_C_cat1
  note t0 = catalog_failure_ends_process [OF u0 data_validation_test_C_cat0 i,
      where t = s_tested and level_qc = 0 and e = "Error ''IOError''" and ?e0.0 = "Error ''IOError''"]
  note t1 = catalog_failure_ends_process [OF u1 data_validation_test_C_cat1 i,
      where t = s_level0 and level_qc = 1 and e = "Error ''IOError''" and ?s2.0 = s_level0
        and ?e1.0 = "Error ''IOError''"]
  from t0 h0 have a0: "fst (process_qc_level C_cat0 0 s_tested) = Inl (SystemExit 1)" by simp
  from t1 h1 have a1: "fst (process_qc_level C_cat1 1 s_level0) = Inl (SystemExit 1)" by simp
  from t0 t1 h0 h1 process_qc_level_C_cat1 u0 u1 i data_validation_test_C_cat0
    data_validation_test_C_cat1 a0 a1
  show ?thesis by blast
qed

text \<open>
  Claim C1 as stated fails: with the level-0 catalogue unavailable, the process ends with
  status 1 and the processing of level 1 is never announced in the log.
\<close>
theorem catalog_failure_not_per_level_counterexample:
  "exit_status (fst (main C_cat0 s0)) = 1 \<and>
   (INFO, ''Process ANMN NRS download from AIMS web service - QC level 1'')
     \<notin> set (log (snd (main C_cat0 s0)))"
proof -
  have h: "parse_aims_xml C_cat0 (trace s_tested) (xml_url 0 300) = Inl (Error ''IOError'')"
    by (simp add: C_cat0_def)
  have u: "SingleInstance C_cat0 = Inr ()" "set_up C_cat0 = Inr ()"
    by (simp_all add: C_cat0_def C_ok_def)
  have i: "length (incoming s_tested) < 200"
    by (simp add: s_tested_def s0_def)
  have "main C_cat0 s0 = after_test C_cat0 True s_tested"
    using u data_validation_test_C_cat0 by (rule main_after_startup)
  then have "main C_cat0 s0 = process_qc_level C_cat0 0 s_tested"
    using process_qc_level_catalog_failure [OF h]
    by (simp add: after_test_passed [OF i] qc_levels_def m_defs)
  moreover have "log s_tested = []"
    by (simp add: s_tested_def s0_def)
  ultimately show ?thesis
    by (simp add: process_qc_level_catalog_failure [OF h] exit_status_def str_nat.simps)
qed




text \<open>
  Claim C3.  When the download of a chunk gives a file that \<^verbatim>\<open>is_no_data_found\<close> recognises,
  the chunk ends without a \<^verbatim>\<open>break\<close>: the watermark of the channel is then at or after the
  end date of the chunk, and the loop goes on with the remaining chunks from the state the
  chunk leaves.
\<close>
theorem no_data_found_is_benign:
  assumes "download_channel C (trace s) ch sd ed qc = Inr (Some f)"
    and "is_no_data_found C f = Inr True"
  shows "fst (process_chunk C ch info xml qc (sd, ed) s) = Inr No_data_found \<and>
         (\<exists>w. store (snd (process_chunk C ch info xml qc (sd, ed) s)) (ch, qc) = Some w \<and> ed \<le> w) \<and>
         chunk_loop C ch info xml qc ((sd, ed) # rest) s =
           chunk_loop C ch info xml qc rest (snd (process_chunk C ch info xml qc (sd, ed) s))"
proof -
  have fp: "fetch_and_process C ch info qc sd ed s =
      (Inr No_data_found,
       s\<lparr>trace := trace s @ [Ev_download_channel ch sd ed qc, Ev_is_no_data_found],
         log := log s @ [(WARNING, ''   Channel '' @ ch @ '' - No data for the time period:''
                                 @ strftime C sd @ '' - '' @ strftime C ed)],
         reclaimed := reclaimed s @ [dirname (nc_path f)]\<rparr>)"
    using assms by (simp add: fetch_and_process_def m_defs)
  have pc: "process_chunk C ch info xml qc (sd, ed) s =
      (Inr No_data_found, (snd (fetch_and_process C ch info qc sd ed s))
          \<lparr>store := advance ch qc ed (store (snd (fetch_and_process C ch info qc sd ed s)))\<rparr>)"
    by (simp add: process_chunk_def fp m_defs breaks_def save_channel_info_def)
  show ?thesis
    using chunk_loop_step [OF pc, of rest] advance_covers [of ch qc ed]
    by (simp add: pc breaks_def)
qed

theorem no_data_found_is_benign_witness:
  "download_channel C_nodata (trace s0) ''84329'' 0 10 0 = Inr (Some file0) \<and>
   is_no_data_found C_nodata file0 = Inr True \<and>
   fst (process_chunk C_nodata ''84329'' info0 xml0 0 (0, 10) s0) = Inr No_data_found \<and>
   (\<exists>w. store (snd (process_chunk C_nodata ''84329'' info0 xml0 0 (0, 10) s0)) (''84329'', 0) = Some w
        \<and> 10 \<le> w) \<and>
   chunk_loop C_nodata ''84329'' info0 xml0 0 [(0, 10), (10, 20)] s0 =
     chunk_loop C_nodata ''84329'' info0 xml0 0 [(10, 20)]
       (snd (process_chunk C_nodata ''84329'' info0 xml0 0 (0, 10) s0))"
proof -
  have d: "download_channel C_nodata (trace s0) ''84329'' 0 10 0 = Inr (Some file0)"
    by (simp add: C_nodata_def C_ok_def)
  have n: "is_no_data_found C_nodata file0 = Inr True"
    by (simp add: C_nodata_def)
  from no_data_found_is_benign [OF d n, where info = info0 and xml = xml0 and rest = "[(10, 20)]"] d n
  show ?thesis by blast
qed



text \<open>
  Claim C5.  On the store as the spec describes it (\<open>advance\<close>): an advance to a time
  earlier than the stored one leaves the store as it is; and over any sequence of runs, each in
  its own environment, a watermark that is set stays set and does not decrease.
\<close>
theorem watermark_monotonic:
  "(st (ch, qc) = Some w \<and> t < w \<longrightarrow> advance ch qc t st = st) \<and>
   (store s k = Some v \<longrightarrow> (\<exists>v'. store (runs Cs s) k = Some v' \<and> v \<le> v'))"
proof (intro conjI impI)
  assume "st (ch, qc) = Some w \<and> t < w"
  then show "advance ch qc t st = st" by (simp add: advance_earlier_noop)
next
  assume "store s k = Some v"
  with runs_watermark [of s Cs] show "\<exists>v'. store (runs Cs s) k = Some v' \<and> v \<le> v'"
    unfolding watermark_le_def by blast
qed

theorem watermark_monotonic_witness:
  "[(''84329'', 0::nat) \<mapsto> 20::nat] (''84329'', 0) = Some 20 \<and> (10::nat) < 20 \<and>
   advance ''84329'' 0 10 [(''84329'', 0) \<mapsto> 20] = [(''84329'', 0) \<mapsto> 20] \<and>
   store s_marked (''84329'', 0) = Some 20 \<and>
   (\<exists>v'. store (runs [C_ok, C_nodata] s_marked) (''84329'', 0) = Some v' \<and> 20 \<le> v')"
proof -
  have m: "store s_marked (''84329'', 0) = Some 20"
    by (simp add: s_marked_def s0_def)
  from watermark_monotonic [where st = "[(''84329'', 0) \<mapsto> 20]" and ch = "''84329''" and qc = 0
      and w = 20 and t = 10 and s = s_marked and k = "(''84329'', 0)" and v = 20
      and Cs = "[C_ok, C_nodata]"] m
  show ?thesis by simp
qed

text \<open>
  Claim C6, as amended.  The claim says that a run that finds the backlog does not contact the
  feed at all.  The script tests the backlog after the start-up self-test, so: when the
  incoming directory holds 200 files or more, the run does the self-test, which fetches the
  level-1 catalogue and, when that succeeds, downloads one day of channel 84329; it then logs
  a warning and exits with status 0.  Nothing else is asked of the feed, no qc-level is
  processed, and the watermarks and the incoming directory are left as they were.
\<close>
theorem backlog_aborts_after_self_test:
  assumes "SingleInstance C = Inr ()" and "set_up C = Inr ()"
    and "200 \<le> length (incoming s)"
  shows "main C s =
           (Inl (SystemExit 0),
            (snd (data_validation_test C s))
              \<lparr>log := log s @ [(WARNING, ''Operation aborted, too many files in INCOMING_DIR'')]\<rparr>) \<and>
         store (snd (main C s)) = store s \<and>
         incoming (snd (main C s)) = incoming s \<and>
         (\<exists>ev. trace (snd (main C s)) = trace s @ Ev_parse_aims_xml (xml_url 1 300) # ev \<and>
               prefix ev (tl self_test_events))"
proof -
  obtain r s1 where dv: "data_validation_test C s = (r, s1)"
    by (cases "data_validation_test C s")
  from data_validation_test_effects [OF dv] dv main_backlog [OF assms]
  show ?thesis by simp
qed

theorem backlog_aborts_after_self_test_witness:
  "SingleInstance C_ok = Inr () \<and> set_up C_ok = Inr () \<and> 200 \<le> length (incoming s_backlog) \<and>
   fst (main C_ok s_backlog) = Inl (SystemExit 0) \<and>
   store (snd (main C_ok s_backlog)) = store s_backlog \<and>
   (\<exists>ev. trace (snd (main C_ok s_backlog)) =
           trace s_backlog @ Ev_parse_aims_xml (xml_url 1 300) # ev \<and>
         prefix ev (tl self_test_events))"
proof -
  have u: "SingleInstance C_ok = Inr ()" "set_up C_ok = Inr ()"
    by (simp_all add: C_ok_def)
  have b: "200 \<le> length (incoming s_backlog)"
    by (simp add: s_backlog_def s0_def)
  note t = backlog_aborts_after_self_test [OF u b]
  from t have 1: "fst (main C_ok s_backlog) = Inl (SystemExit 0)" by simp
  from t u b 1 show ?thesis by blast
qed

text \<open>
  Claim C6 as stated fails: with 201 files pending, the run has fetched the catalogue from the
  feed and downloaded channel 84329 from it by the time it aborts.
\<close>
theorem backlog_abort_contacts_feed_counterexample:
  "200 < length (incoming s_over) \<and>
   fst (main C_ok s_over) = Inl (SystemExit 0) \<and>
   Ev_parse_aims_xml (xml_url 1 300) \<in> set (trace (snd (main C_ok s_over))) \<and>
   Ev_download_channel ''84329'' test_from_date test_thru_date 1
     \<in> set (trace (snd (main C_ok s_over)))"
proof -
  have u: "SingleInstance C_ok = Inr ()" "set_up C_ok = Inr ()"
    by (simp_all add: C_ok_def)
  have b: "200 \<le> length (incoming s_over)" "200 < length (incoming s_over)"
    by (simp_all add: s_over_def s0_def)
  from main_backlog [OF u b(1)] data_validation_test_trace [OF setUp_C_ok, of s_over] b(2)
  show ?thesis by (simp add: self_test_events_def)
qed




text \<open>
  Claim C8.  The \<^verbatim>\<open>try\<close> around a channel always returns normally; when the processing of
  the channel raises, whatever the exception, the state it left is kept and one error line
  naming the channel is logged; the loop then goes on with the remaining channels, never
  raises itself, and by its end the processing of every channel of the list has been
  announced in the log.
\<close>
theorem channel_isolation:
  "fst (guarded_channel C ch xml qc s) = Inr () \<and>
   (process_monthly_channel C ch xml qc s = (Inl e, s') \<longrightarrow>
      guarded_channel C ch xml qc s =
        (Inr (), s'\<lparr>log := log s' @ [(ERROR, unknown_reason_msg ch qc)]\<rparr>)) \<and>
   channel_loop C xml qc (ch # chs) s =
     channel_loop C xml qc chs (snd (guarded_channel C ch xml qc s)) \<and>
   fst (channel_loop C xml qc (ch # chs) s) = Inr () \<and>
   (\<forall>c \<in> set (ch # chs). processing_msg qc c \<in> set (log (snd (channel_loop C xml qc (ch # chs) s))))"
  using guarded_channel_returns [of C ch xml qc s] guarded_channel_caught [of C ch xml qc s e s']
    channel_loop_step [of C xml qc ch chs s] channel_loop_returns [of C xml qc "ch # chs" s]
    channel_loop_logs_start [of _ "ch # chs" qc C xml s]
  by blast

theorem channel_isolation_witness:
  "process_monthly_channel C_chanerr ''84329'' xml0 0 s0 =
     (Inl (Error ''KeyError''), s0\<lparr>log := [processing_msg 0 ''84329'']\<rparr>) \<and>
   guarded_channel C_chanerr ''84329'' xml0 0 s0 =
     (Inr (), s0\<lparr>log := [processing_msg 0 ''84329'', (ERROR, unknown_reason_msg ''84329'' 0)]\<rparr>) \<and>
   ''84330'' \<in> set [''84329'', ''84330''] \<and>
   processing_msg 0 ''84330''
     \<in> set (log (snd (channel_loop C_chanerr xml0 0 [''84329'', ''84330''] s0))) \<and>
   fst (channel_loop C_chanerr xml0 0 [''84329'', ''84330''] s0) = Inr ()"
proof -
  note h = process_monthly_channel_C_chanerr
  have m: "''84330'' \<in> set [''84329'', ''84330'']" by simp
  note t = channel_isolation [of C_chanerr "''84329''" xml0 0 s0 "Error ''KeyError''"
      "s0\<lparr>log := [processing_msg 0 ''84329'']\<rparr>" "[''84330'']"]
  from t h have g: "guarded_channel C_chanerr ''84329'' xml0 0 s0 =
     (Inr (), s0\<lparr>log := [processing_msg 0 ''84329'', (ERROR, unknown_reason_msg ''84329'' 0)]\<rparr>)"
    by simp
  from t h m g show ?thesis by blast
qed

text \<open>
  Claim C9.  Once the instance lock and \<^verbatim>\<open>set_up\<close> have succeeded, the first thing any run
  asks of the feed is the catalogue fetch of the self-test.  When \<^verbatim>\<open>setUp\<close> of the self-test
  returns its file and the digest of that file is not the expected constant, the run ends with
  status 0, the only calls it has made are the three of the self-test (catalogue fetch,
  download of channel 84329 for one fixed day, Transformer), so that no qc-level is processed,
  and the watermarks and the incoming directory are as they were.
\<close>
theorem failed_self_test_skips_levels:
  assumes "SingleInstance C = Inr ()" and "set_up C = Inr ()"
  shows "(\<exists>ev. trace (snd (main C s)) = trace s @ Ev_parse_aims_xml (xml_url 1 300) # ev) \<and>
         (setUp C s = (Inr f, s1) \<and> md5 C f \<noteq> Inr md5_expected_value \<longrightarrow>
            exit_status (fst (main C s)) = 0 \<and>
            store (snd (main C s)) = store s \<and>
            incoming (snd (main C s)) = incoming s \<and>
            trace (snd (main C s)) = trace s @ self_test_events)"
proof (rule conjI)
  obtain r s2 where dv: "data_validation_test C s = (r, s2)"
    by (cases "data_validation_test C s")
  note ef = data_validation_test_effects [OF dv]
  then obtain ok where r: "r = Inr ok" by auto
  have "prefix (trace s2) (trace (snd (after_test C ok s2)))"
    using keeps_after_test [OF stable_trace, of C ok] by (simp add: keeps_def)
  then obtain ev2 where "trace (snd (after_test C ok s2)) = trace s2 @ ev2"
    by (auto simp: prefix_def)
  with ef main_after_startup [OF assms dv [unfolded r]]
  show "\<exists>ev. trace (snd (main C s)) = trace s @ Ev_parse_aims_xml (xml_url 1 300) # ev"
    by auto
next
  show "setUp C s = (Inr f, s1) \<and> md5 C f \<noteq> Inr md5_expected_value \<longrightarrow>
            exit_status (fst (main C s)) = 0 \<and>
            store (snd (main C s)) = store s \<and>
            incoming (snd (main C s)) = incoming s \<and>
            trace (snd (main C s)) = trace s @ self_test_events"
  proof (rule impI)
  assume a: "setUp C s = (Inr f, s1) \<and> md5 C f \<noteq> Inr md5_expected_value"
  then have mm: "fst (data_validation_test C s) = Inr False \<and>
         trace (snd (data_validation_test C s)) = trace s @ self_test_events"
    by (intro data_validation_test_md5_mismatch) auto
  obtain s2 where dv: "data_validation_test C s = (Inr False, s2)"
    using mm by (cases "data_validation_test C s") auto
  note ef = data_validation_test_effects [OF dv]
  have m: "main C s = after_test C False s2"
    using assms dv by (simp add: main_after_startup)
  show "exit_status (fst (main C s)) = 0 \<and>
            store (snd (main C s)) = store s \<and>
            incoming (snd (main C s)) = incoming s \<and>
            trace (snd (main C s)) = trace s @ self_test_events"
  proof (cases "200 \<le> length (incoming s2)")
    case True
    with m ef mm dv show ?thesis by (simp add: after_test_backlog exit_status_def)
  next
    case False
    then have "length (incoming s2) < 200" by simp
    with m ef mm dv show ?thesis by (simp add: after_test_failed exit_status_def)
  qed
  qed
qed

theorem failed_self_test_skips_levels_witness:
  "SingleInstance C_md5 = Inr () \<and> set_up C_md5 = Inr () \<and>
   setUp C_md5 s0 = (Inr file_test, s0\<lparr>trace := trace s0 @ self_test_events\<rparr>) \<and>
   md5 C_md5 file_test \<noteq> Inr md5_expected_value \<and>
   exit_status (fst (main C_md5 s0)) = 0 \<and>
   store (snd (main C_md5 s0)) = store s0 \<and>
   trace (snd (main C_md5 s0)) = trace s0 @ self_test_events"
proof -
  have u: "SingleInstance C_md5 = Inr ()" "set_up C_md5 = Inr ()"
    by (simp_all add: C_md5_def C_ok_def)
  have d: "md5 C_md5 file_test \<noteq> Inr md5_expected_value"
    by (simp add: C_md5_def md5_expected_value_def)
  from failed_self_test_skips_levels [OF u, of s0 file_test "s0\<lparr>trace := trace s0 @ self_test_events\<rparr>"]
    u d setUp_C_md5 [of s0]
  show ?thesis by simp
qed

text \<open>
  Claim C10, as amended.  The claim says that the file name is tested.  The script gives
  \<^verbatim>\<open>re.search\<close> the whole of \<^verbatim>\<open>netcdf_tmp_file_path\<close>, the directory part included.  So: when a
  chunk passes every test up to and including the compliance checker, and the path of the file
  after \<^verbatim>\<open>fix_data_code_from_filename\<close> and \<^verbatim>\<open>fix_provider_code_from_filename\<close> has no match
  for \<^verbatim>\<open>IMOS_ANMN_[A-Z]{1}_\<close> anywhere, then the renamed file is appended to the errors directory,
  the watermarks are as they were, and the loop over the chunks stops with none of the
  remaining chunks run.
\<close>
theorem regex_gate_after_checker:
  assumes "download_channel C (trace s) ch sd ed qc = Inr (Some f0)"
    and "is_no_data_found C f0 = Inr False"
    and "is_time_var_empty C f0 = Inr False"
    and "modify_anmn_nrs_netcdf C f0 info = Inr (True, f1)"
    and "get_main_anmn_nrs_var C f1 = Inr main_var"
    and "has_var_only_fill_value C f1 main_var = Inr False"
    and "get_anmn_nrs_site_name C f1 = Inr site_name" and "site_name \<noteq> []"
    and "is_time_monotonic C f1 = Inr True"
    and "pass_netcdf_checker C f1 [''cf:latest'', ''imos:1.3''] = Inr True"
    and "fix_data_code_from_filename C f1 = Inr f2"
    and "fix_provider_code_from_filename C f2 ''IMOS_ANMN'' = Inr f3"
    and "\<not> re_search (nc_path f3)"
  shows "fst (process_chunk C ch info xml qc (sd, ed) s) = Inr Regex_failed \<and>
         errors_dir (snd (process_chunk C ch info xml qc (sd, ed) s)) = errors_dir s @ [f3] \<and>
         store (snd (process_chunk C ch info xml qc (sd, ed) s)) = store s \<and>
         chunk_loop C ch info xml qc ((sd, ed) # rest) s =
           (Inr (), snd (process_chunk C ch info xml qc (sd, ed) s))"
proof -
  have np: "name_and_publish C ch f1 t =
      (Inr Regex_failed,
       t\<lparr>trace := trace t @ [Ev_fix_data_code_from_filename, Ev_fix_provider_code_from_filename,
                              Ev_re_search],
         log := log t @ [(ERROR, ''   Channel '' @ ch
              @ '' - File name Data code does not pass REGEX - Process of channel aborted''),
              (ERROR, copied_msg C f3)],
         errors_dir := errors_dir t @ [f3],
         reclaimed := reclaimed t @ [dirname (nc_path f3)]\<rparr>)" for t
    using assms(11-13) by (simp add: name_and_publish_def m_defs)
  have cf: "fst (check_file C ch f1 t) = Inr Regex_failed \<and>
            errors_dir (snd (check_file C ch f1 t)) = errors_dir t @ [f3] \<and>
            store (snd (check_file C ch f1 t)) = store t" for t
    using assms(5-10) by (simp add: check_file_def m_defs np)
  have pf: "fst (process_file C ch info f0 t) = Inr Regex_failed \<and>
            errors_dir (snd (process_file C ch info f0 t)) = errors_dir t @ [f3] \<and>
            store (snd (process_file C ch info f0 t)) = store t" for t
    using assms(3,4) cf [of "t\<lparr>trace := trace t @ [Ev_is_time_var_empty, Ev_modify_anmn_nrs_netcdf]\<rparr>"]
    by (simp add: process_file_def m_defs split: prod.splits)
  have fp: "fst (fetch_and_process C ch info qc sd ed s) = Inr Regex_failed \<and>
            errors_dir (snd (fetch_and_process C ch info qc sd ed s)) = errors_dir s @ [f3] \<and>
            store (snd (fetch_and_process C ch info qc sd ed s)) = store s"
    using assms(1,2) pf [of "s\<lparr>trace := trace s @ [Ev_download_channel ch sd ed qc, Ev_is_no_data_found]\<rparr>"]
    by (simp add: fetch_and_process_def m_defs split: prod.splits)
  obtain s1 where s1: "fetch_and_process C ch info qc sd ed s = (Inr Regex_failed, s1)"
    using fp by (cases "fetch_and_process C ch info qc sd ed s") auto
  have pc: "process_chunk C ch info xml qc (sd, ed) s = (Inr Regex_failed, s1)"
    by (simp add: process_chunk_def m_defs s1 breaks_def)
  show ?thesis
    using fp s1 chunk_loop_step [OF pc, of rest] by (simp add: pc breaks_def)
qed

theorem regex_gate_after_checker_witness:
  "download_channel C_regex (trace s0) ''84329'' 0 10 0 = Inr (Some file0) \<and>
   is_no_data_found C_regex file0 = Inr False \<and>
   is_time_var_empty C_regex file0 = Inr False \<and>
   modify_anmn_nrs_netcdf C_regex file0 info0 = Inr (True, file1) \<and>
   get_main_anmn_nrs_var C_regex file1 = Inr ''TEMP'' \<and>
   has_var_only_fill_value C_regex file1 ''TEMP'' = Inr False \<and>
   get_anmn_nrs_site_name C_regex file1 = Inr [''Yongala''] \<and> [''Yongala''] \<noteq> [] \<and>
   is_time_monotonic C_regex file1 = Inr True \<and>
   pass_netcdf_checker C_regex file1 [''cf:latest'', ''imos:1.3''] = Inr True \<and>
   fix_data_code_from_filename C_regex file1 = Inr file1 \<and>
   fix_provider_code_from_filename C_regex file1 ''IMOS_ANMN'' = Inr file_misnamed \<and>
   \<not> re_search (nc_path file_misnamed) \<and>
   fst (process_chunk C_regex ''84329'' info0 xml0 0 (0, 10) s0) = Inr Regex_failed \<and>
   errors_dir (snd (process_chunk C_regex ''84329'' info0 xml0 0 (0, 10) s0)) =
     errors_dir s0 @ [file_misnamed] \<and>
   store (snd (process_chunk C_regex ''84329'' info0 xml0 0 (0, 10) s0)) = store s0 \<and>
   chunk_loop C_regex ''84329'' info0 xml0 0 [(0, 10), (10, 20)] s0 =
     (Inr (), snd (process_chunk C_regex ''84329'' info0 xml0 0 (0, 10) s0))"
proof -
  have h: "download_channel C_regex (trace s0) ''84329'' 0 10 0 = Inr (Some file0)"
    "is_no_data_found C_regex file0 = Inr False"
    "is_time_var_empty C_regex file0 = Inr False"
    "modify_anmn_nrs_netcdf C_regex file0 info0 = Inr (True, file1)"
    "get_main_anmn_nrs_var C_regex file1 = Inr ''TEMP''"
    "has_var_only_fill_value C_regex file1 ''TEMP'' = Inr False"
    "get_anmn_nrs_site_name C_regex file1 = Inr [''Yongala'']"
    "[''Yongala''] \<noteq> []"
    "is_time_monotonic C_regex file1 = Inr True"
    "pass_netcdf_checker C_regex file1 [''cf:latest'', ''imos:1.3''] = Inr True"
    "fix_data_code_from_filename C_regex file1 = Inr file1"
    "fix_provider_code_from_filename C_regex file1 ''IMOS_ANMN'' = Inr file_misnamed"
    "\<not> re_search (nc_path file_misnamed)"
    by (simp_all add: C_regex_def C_ok_def modify_C_ok re_search_file_misnamed)
  from regex_gate_after_checker [OF h, where xml = xml0 and rest = "[(10, 20)]"] h
  show ?thesis by simp
qed

text \<open>
  Claim C10 as stated fails: a file named \<^verbatim>\<open>f.nc\<close>, whose name has no match for the pattern,
  downloaded into a directory whose name has one, passes the test; it is moved to the incoming
  directory, nothing is copied to the errors directory, and the watermark advances.
\<close>
theorem regex_on_whole_path_counterexample:
  "pass_netcdf_checker C_dir file1_dir [''cf:latest'', ''imos:1.3''] = Inr True \<and>
   fix_data_code_from_filename C_dir file1_dir = Inr file1_dir \<and>
   fix_provider_code_from_filename C_dir file1_dir ''IMOS_ANMN'' = Inr file1_dir \<and>
   basename (nc_path file1_dir) = ''f.nc'' \<and>
   \<not> re_search (basename (nc_path file1_dir)) \<and>
   fst (process_chunk C_dir ''84329'' info0 xml0 0 (0, 10) s0) = Inr Moved_to_incoming \<and>
   errors_dir (snd (process_chunk C_dir ''84329'' info0 xml0 0 (0, 10) s0)) = [] \<and>
   store s0 (''84329'', 0) = None \<and>
   store (snd (process_chunk C_dir ''84329'' info0 xml0 0 (0, 10) s0)) (''84329'', 0) = Some 10"
proof -
  have "pass_netcdf_checker C_dir file1_dir [''cf:latest'', ''imos:1.3''] = Inr True"
    "fix_data_code_from_filename C_dir file1_dir = Inr file1_dir"
    "fix_provider_code_from_filename C_dir file1_dir ''IMOS_ANMN'' = Inr file1_dir"
    by (simp_all add: C_dir_def C_ok_def)
  moreover have "errors_dir s0 = []" "store s0 (''84329'', 0) = None"
    by (simp_all add: s0_def)
  ultimately show ?thesis
    by (simp add: process_chunk_C_dir file1_dir_path regex_at_def)
qed

end
